theory Spec2Isabelle
  imports Complex_Main "HOL-Library.Log_Nat"
begin

section \<open>ECMAScript numbers\<close>

text \<open>
  \<^verbatim>\<open>server.js\<close> computes with JavaScript Numbers, which are IEEE 754 binary64 values.
  A finite Number is modelled by the rational it denotes, so the two zeros are one value.
  The sign of a zero shows in a division by it and in nothing else the source does: the
  source divides by the constants \<open>1 - 0.029\<close> and \<open>100\<close> only, both zeros are falsy, and
  \<^verbatim>\<open>String\<close> and \<^verbatim>\<open>toFixed\<close> print them alike. Every arithmetic operation computes
  the exact rational result and then rounds it to the nearest binary64 value, ties to
  even, as the language does.
\<close>

datatype jsnum = NaN | PosInf | NegInf | Fin rat

text \<open>Rounding a rational to the nearest integer, a tie going to the even neighbour.\<close>

definition rne :: "rat \<Rightarrow> int" where
  "rne x =
     (let f = \<lfloor>x\<rfloor>; r = x - of_int f
      in if r < 1 / 2 then f
         else if 1 / 2 < r then f + 1
         else if even f then f else f + 1)"

text \<open>The binary exponent of a positive rational: \<open>2 ^ e \<le> x < 2 ^ (e + 1)\<close>.\<close>

definition ilog2 :: "rat \<Rightarrow> int" where
  "ilog2 x =
     (let p = fst (quotient_of x); q = snd (quotient_of x); e = bitlen p - bitlen q
      in if 2 powi e \<le> x then e else e - 1)"

text \<open>
  Rounding to binary64: 53 significant bits, the least exponent of a unit in the last
  place is \<open>-1074\<close> (subnormal numbers), and a result that reaches \<open>2 ^ 1024\<close> in
  magnitude is an infinity.
\<close>

definition fl :: "rat \<Rightarrow> jsnum" where
  "fl x =
     (if x = 0 then Fin 0
      else
        let u = 2 powi (max (ilog2 \<bar>x\<bar> - 52) (- 1074));
            y = of_int (rne (x / u)) * u
        in if 2 ^ 1024 \<le> y then PosInf
           else if y \<le> - (2 ^ 1024) then NegInf
           else Fin y)"

fun js_neg :: "jsnum \<Rightarrow> jsnum" where
  "js_neg NaN = NaN"
| "js_neg PosInf = NegInf"
| "js_neg NegInf = PosInf"
| "js_neg (Fin x) = Fin (- x)"

fun js_add :: "jsnum \<Rightarrow> jsnum \<Rightarrow> jsnum" where
  "js_add NaN _ = NaN"
| "js_add _ NaN = NaN"
| "js_add PosInf NegInf = NaN"
| "js_add NegInf PosInf = NaN"
| "js_add PosInf _ = PosInf"
| "js_add NegInf _ = NegInf"
| "js_add _ PosInf = PosInf"
| "js_add _ NegInf = NegInf"
| "js_add (Fin x) (Fin y) = fl (x + y)"

definition js_sub :: "jsnum \<Rightarrow> jsnum \<Rightarrow> jsnum" where
  "js_sub a b = js_add a (js_neg b)"

text \<open>
  Division. A finite non-zero numerator over zero is an infinity whose sign is that of
  the numerator (zero is unsigned here); the source divides by the constants
  \<open>1 - 0.029\<close> and \<open>100\<close> only.
\<close>

fun js_div :: "jsnum \<Rightarrow> jsnum \<Rightarrow> jsnum" where
  "js_div NaN _ = NaN"
| "js_div _ NaN = NaN"
| "js_div (Fin x) (Fin y) =
     (if y = 0 then (if x = 0 then NaN else if 0 < x then PosInf else NegInf)
      else fl (x / y))"
| "js_div (Fin x) _ = Fin 0"
| "js_div PosInf (Fin y) = (if 0 \<le> y then PosInf else NegInf)"
| "js_div NegInf (Fin y) = (if 0 \<le> y then NegInf else PosInf)"
| "js_div _ _ = NaN"

text \<open>\<^verbatim>\<open>Math.ceil\<close>: the ceiling of a binary64 value is a binary64 value.\<close>

fun Math_ceil :: "jsnum \<Rightarrow> jsnum" where
  "Math_ceil (Fin x) = Fin (of_int \<lceil>x\<rceil>)"
| "Math_ceil a = a"

text \<open>The relational operator \<^verbatim>\<open>a > b\<close> on Numbers.\<close>

fun js_gt :: "jsnum \<Rightarrow> jsnum \<Rightarrow> bool" where
  "js_gt NaN _ = False"
| "js_gt _ NaN = False"
| "js_gt PosInf b = (b \<noteq> PosInf)"
| "js_gt NegInf _ = False"
| "js_gt (Fin x) PosInf = False"
| "js_gt (Fin x) NegInf = True"
| "js_gt (Fin x) (Fin y) = (y < x)"

text \<open>A decimal literal of the source denotes the binary64 value nearest to it.\<close>

definition lit_0_029 :: jsnum where
  "lit_0_029 = fl (29 / 1000)"

section \<open>ECMAScript values\<close>

text \<open>
  Request bodies, processor payloads and metadata are JSON values. A string is a list of
  bytes (UTF-8); an object is a finite map from property names to values, so the order of
  its properties is not represented. \<open>JUndefined\<close> is what reading an absent property
  gives.
\<close>

datatype jsval =
    JUndefined
  | JNull
  | JBool bool
  | JNum jsnum
  | JStr string
  | JArr "jsval list"
  | JObj "string \<Rightarrow> jsval option"

text \<open>
  Three operations of the language are not modelled but taken as parameters: the parser
  of numeric strings behind \<^verbatim>\<open>Number(s)\<close>, the shortest-digits printer of finite Numbers
  behind \<^verbatim>\<open>String(x)\<close>, and the division of a string into its UTF-16 code units, each
  given as a string of its own. Every function below that may reach one of them takes the
  triple as its first argument, and every theorem holds for all such triples.
\<close>

record ecma =
  StringToNumber :: "string \<Rightarrow> jsnum"
  NumberToString :: "rat \<Rightarrow> string"
  CodeUnits :: "string \<Rightarrow> string list"

fun truthy :: "jsval \<Rightarrow> bool" where
  "truthy JUndefined = False"
| "truthy JNull = False"
| "truthy (JBool b) = b"
| "truthy (JNum NaN) = False"
| "truthy (JNum (Fin x)) = (x \<noteq> 0)"
| "truthy (JNum _) = True"
| "truthy (JStr s) = (s \<noteq> [])"
| "truthy (JArr _) = True"
| "truthy (JObj _) = True"

text \<open>\<^verbatim>\<open>a || b\<close>\<close>

definition js_or :: "jsval \<Rightarrow> jsval \<Rightarrow> jsval" where
  "js_or a b = (if truthy a then a else b)"

text \<open>\<^verbatim>\<open>v === 'literal'\<close>\<close>

definition is_str :: "jsval \<Rightarrow> string \<Rightarrow> bool" where
  "is_str v s = (case v of JStr t \<Rightarrow> t = s | _ \<Rightarrow> False)"

text \<open>
  What the handlers throw: a TypeError of the language, or the error of a collaborator
  with its \<^verbatim>\<open>message\<close>.
\<close>

datatype exn = TypeError | Thrown jsval

text \<open>Evaluating from left to right; the first throw ends the evaluation.\<close>

fun sequenceE :: "(exn + 'a) list \<Rightarrow> exn + 'a list" where
  "sequenceE [] = Inr []"
| "sequenceE (Inl e # ps) = Inl e"
| "sequenceE (Inr a # ps) = (case sequenceE ps of Inl e \<Rightarrow> Inl e | Inr as \<Rightarrow> Inr (a # as))"

text \<open>A template literal: its pieces are converted in order and concatenated.\<close>

definition concatE :: "(exn + string) list \<Rightarrow> exn + string" where
  "concatE ps = (case sequenceE ps of Inl e \<Rightarrow> Inl e | Inr ss \<Rightarrow> Inr (concat ss))"

fun join_comma :: "string list \<Rightarrow> string" where
  "join_comma [] = []"
| "join_comma [s] = s"
| "join_comma (s # t # ss) = s @ '','' @ join_comma (t # ss)"

text \<open>
  \<^verbatim>\<open>String(v)\<close> and the conversion a template literal applies to \<^verbatim>\<open>${v}\<close>. An object
  is converted by its \<^verbatim>\<open>toString\<close> method: a parsed JSON object inherits the one that
  answers \<^verbatim>\<open>[object Object]\<close>, unless it has a property of that name of its own, which
  is never callable, and then the conversion throws a TypeError (the inherited
  \<^verbatim>\<open>valueOf\<close> answers the object itself, and an own \<^verbatim>\<open>valueOf\<close> is not callable
  either). An array prints its elements joined by commas, \<^verbatim>\<open>null\<close> and \<^verbatim>\<open>undefined\<close>
  elements as nothing, and throws when an element does.
\<close>

fun ToString :: "ecma \<Rightarrow> jsval \<Rightarrow> exn + string" where
  "ToString E JUndefined = Inr ''undefined''"
| "ToString E JNull = Inr ''null''"
| "ToString E (JBool b) = Inr (if b then ''true'' else ''false'')"
| "ToString E (JNum NaN) = Inr ''NaN''"
| "ToString E (JNum PosInf) = Inr ''Infinity''"
| "ToString E (JNum NegInf) = Inr ''-Infinity''"
| "ToString E (JNum (Fin x)) = Inr (NumberToString E x)"
| "ToString E (JStr s) = Inr s"
| "ToString E (JArr xs) =
     (case sequenceE (map (\<lambda>x. case x of JUndefined \<Rightarrow> Inr [] | JNull \<Rightarrow> Inr []
                                     | _ \<Rightarrow> ToString E x) xs) of
        Inl e \<Rightarrow> Inl e
      | Inr ss \<Rightarrow> Inr (join_comma ss))"
| "ToString E (JObj m) =
     (if m ''toString'' = None then Inr ''[object Object]'' else Inl TypeError)"

text \<open>
  \<^verbatim>\<open>Number(v)\<close>, also applied by \<^verbatim>\<open>v / 100\<close>. An object or an array is converted to
  a string first (its \<^verbatim>\<open>valueOf\<close> does not answer a primitive), so the conversion throws
  where \<^verbatim>\<open>String(v)\<close> throws; \<^verbatim>\<open>[object Object]\<close> is not a numeric string.
\<close>

fun ToNumber :: "ecma \<Rightarrow> jsval \<Rightarrow> exn + jsnum" where
  "ToNumber E JUndefined = Inr NaN"
| "ToNumber E JNull = Inr (Fin 0)"
| "ToNumber E (JBool b) = Inr (if b then Fin 1 else Fin 0)"
| "ToNumber E (JNum x) = Inr x"
| "ToNumber E (JStr s) = Inr (StringToNumber E s)"
| "ToNumber E (JArr xs) =
     (case ToString E (JArr xs) of Inl e \<Rightarrow> Inl e | Inr s \<Rightarrow> Inr (StringToNumber E s))"
| "ToNumber E (JObj m) = (if m ''toString'' = None then Inr NaN else Inl TypeError)"

text \<open>The values that both conversions accept: the ones that do not make them throw.\<close>

fun showable :: "jsval \<Rightarrow> bool" where
  "showable (JObj m) = (m ''toString'' = None)"
| "showable (JArr xs) = list_all showable xs"
| "showable v = True"



text \<open>
  Reading a property. \<open>obj_get\<close> reads from an object; \<open>js_get\<close> reads from any value that
  is neither \<^verbatim>\<open>null\<close> nor \<^verbatim>\<open>undefined\<close>: a primitive or an array has none of the
  property names the source reads, and an object inherits none of them.
  \<open>js_get_or_throw\<close> is the read of a value that may be \<^verbatim>\<open>null\<close> or
  \<^verbatim>\<open>undefined\<close>, which throws a TypeError.
\<close>

definition obj_get :: "(string \<Rightarrow> jsval option) \<Rightarrow> string \<Rightarrow> jsval" where
  "obj_get m k = (case m k of None \<Rightarrow> JUndefined | Some v \<Rightarrow> v)"

definition js_get :: "jsval \<Rightarrow> string \<Rightarrow> jsval" where
  "js_get v k = (case v of JObj m \<Rightarrow> obj_get m k | _ \<Rightarrow> JUndefined)"

definition js_get_or_throw :: "jsval \<Rightarrow> string \<Rightarrow> exn + jsval" where
  "js_get_or_throw v k =
     (case v of JUndefined \<Rightarrow> Inl TypeError | JNull \<Rightarrow> Inl TypeError | _ \<Rightarrow> Inr (js_get v k))"

text \<open>A destructuring default \<^verbatim>\<open>{ x = d }\<close> applies when the property is \<^verbatim>\<open>undefined\<close>.\<close>

definition dflt :: "jsval \<Rightarrow> jsval \<Rightarrow> jsval" where
  "dflt v d = (case v of JUndefined \<Rightarrow> d | _ \<Rightarrow> v)"

subsection \<open>Strings\<close>

fun show_nat :: "nat \<Rightarrow> string" where
  "show_nat n =
     (if n < 10 then [''0123456789'' ! n]
      else show_nat (n div 10) @ [''0123456789'' ! (n mod 10)])"

text \<open>
  \<^verbatim>\<open>x.toFixed(2)\<close>: the integer \<open>n\<close> nearest to \<open>100 * x\<close> (the larger one on a tie),
  printed with at least three digits and a point before the last two. From \<open>10 ^ 21\<close>
  on the method prints the Number as \<^verbatim>\<open>String\<close> does.
\<close>

definition toFixed2 :: "ecma \<Rightarrow> jsnum \<Rightarrow> string" where
  "toFixed2 E v =
     (case v of
        NaN \<Rightarrow> ''NaN''
      | PosInf \<Rightarrow> ''Infinity''
      | NegInf \<Rightarrow> ''-Infinity''
      | Fin x \<Rightarrow>
          (let s = (if x < 0 then ''-'' else []); a = \<bar>x\<bar>
           in if 10 ^ 21 \<le> a then s @ NumberToString E a
              else
                let n = nat \<lfloor>a * 100 + 1 / 2\<rfloor>;
                    m = show_nat n;
                    m' = (if length m \<le> 2 then replicate (3 - length m) (CHR ''0'') @ m else m)
                in s @ take (length m' - 2) m' @ ''.'' @ drop (length m' - 2) m'))"

text \<open>\<^verbatim>\<open>s.split(',')\<close>\<close>

fun split_comma :: "string \<Rightarrow> string list" where
  "split_comma [] = [[]]"
| "split_comma (c # cs) =
     (if c = CHR '','' then [] # split_comma cs
      else (case split_comma cs of [] \<Rightarrow> [[c]] | w # ws \<Rightarrow> (c # w) # ws))"

text \<open>
  \<^verbatim>\<open>s.trim()\<close> removes the white space and line terminators of the language from both
  ends; here are their UTF-8 encodings (U+0009 to U+000D, U+0020, U+00A0, U+1680, U+2000
  to U+200A, U+2028, U+2029, U+202F, U+205F, U+3000, U+FEFF).
\<close>

definition white_space :: "string list" where
  "white_space =
     [[CHR 0x09], [CHR 0x0A], [CHR 0x0B], [CHR 0x0C], [CHR 0x0D], [CHR 0x20],
      [CHR 0xC2, CHR 0xA0],
      [CHR 0xE1, CHR 0x9A, CHR 0x80],
      [CHR 0xE2, CHR 0x80, CHR 0x80], [CHR 0xE2, CHR 0x80, CHR 0x81],
      [CHR 0xE2, CHR 0x80, CHR 0x82], [CHR 0xE2, CHR 0x80, CHR 0x83],
      [CHR 0xE2, CHR 0x80, CHR 0x84], [CHR 0xE2, CHR 0x80, CHR 0x85],
      [CHR 0xE2, CHR 0x80, CHR 0x86], [CHR 0xE2, CHR 0x80, CHR 0x87],
      [CHR 0xE2, CHR 0x80, CHR 0x88], [CHR 0xE2, CHR 0x80, CHR 0x89],
      [CHR 0xE2, CHR 0x80, CHR 0x8A],
      [CHR 0xE2, CHR 0x80, CHR 0xA8], [CHR 0xE2, CHR 0x80, CHR 0xA9],
      [CHR 0xE2, CHR 0x80, CHR 0xAF],
      [CHR 0xE2, CHR 0x81, CHR 0x9F],
      [CHR 0xE3, CHR 0x80, CHR 0x80],
      [CHR 0xEF, CHR 0xBB, CHR 0xBF]]"

text \<open>The number of bytes of the pattern that starts \<open>s\<close>, 0 when none does.\<close>

definition lead_len :: "string list \<Rightarrow> string \<Rightarrow> nat" where
  "lead_len pats s =
     (case find (\<lambda>w. w \<noteq> [] \<and> take (length w) s = w) pats of
        None \<Rightarrow> 0
      | Some w \<Rightarrow> length w)"

function strip :: "string list \<Rightarrow> string \<Rightarrow> string" where
  "strip pats s = (if lead_len pats s = 0 then s else strip pats (drop (lead_len pats s) s))"
  by pat_completeness auto
termination
proof (relation "measure (\<lambda>(pats, s). length s)")
  show "wf (measure (\<lambda>(pats, s). length s))" by simp
next
  fix pats :: "string list" and s :: string
  assume a: "lead_len pats s \<noteq> 0"
  then obtain w where "find (\<lambda>w. w \<noteq> [] \<and> take (length w) s = w) pats = Some w"
    by (auto simp: lead_len_def split: option.splits)
  then have "w \<noteq> []" "take (length w) s = w"
    by (auto simp: find_Some_iff)
  then have "s \<noteq> []" by auto
  with a show "((pats, drop (lead_len pats s) s), (pats, s)) \<in> measure (\<lambda>(pats, s). length s)"
    by simp
qed

definition trim :: "string \<Rightarrow> string" where
  "trim s = rev (strip (map rev white_space) (rev (strip white_space s)))"


section \<open>Amount calculator\<close>

text \<open>
  \<^verbatim>\<open>function computeGrossCents(baseAmountCents, { coverFees }) {
    if (!coverFees) return Number(baseAmountCents);
    return Math.ceil((Number(baseAmountCents) + 30) / (1 - 0.029));
  }\<close>
  The second argument of the model is the \<^verbatim>\<open>coverFees\<close> property of the options object.
  The function throws where \<^verbatim>\<open>Number\<close> throws.
\<close>

definition computeGrossCents :: "ecma \<Rightarrow> jsval \<Rightarrow> jsval \<Rightarrow> exn + jsnum" where
  "computeGrossCents E baseAmountCents coverFees =
     (if \<not> truthy coverFees then ToNumber E baseAmountCents
      else (case ToNumber E baseAmountCents of
              Inl e \<Rightarrow> Inl e
            | Inr x \<Rightarrow> Inr (Math_ceil (js_div (js_add x (Fin 30)) (js_sub (Fin 1) lit_0_029)))))"

text \<open>
  What the documentation of the calculator asks of a gross amount \<open>g\<close>, in exact
  arithmetic: after the deduction of 2.9% of \<open>g\<close> and of the fixed fee of 30, at least
  \<open>b\<close> remains.
\<close>

definition net_covers :: "int \<Rightarrow> int \<Rightarrow> bool" where
  "net_covers g b \<longleftrightarrow> (of_int b :: rat) \<le> of_int g - (29 / 1000 * of_int g + 30)"

section \<open>Configuration and collaborators\<close>

text \<open>
  The environment variables the webhook reads; a variable is absent or a string. The
  remaining ones (\<^verbatim>\<open>STRIPE_SECRET_KEY\<close>, \<^verbatim>\<open>PORT\<close>, \<^verbatim>\<open>FRONTEND_BASE_URL\<close>) do not
  influence the handlers modelled here.
\<close>

record env =
  SENDGRID_API_KEY :: "string option"
  INTERNAL_EMAILS :: "string option"
  NODE_ENV :: "string option"
  STRIPE_WEBHOOK_SECRET :: "string option"

definition env_truthy :: "string option \<Rightarrow> bool" where
  "env_truthy v = (case v of None \<Rightarrow> False | Some s \<Rightarrow> s \<noteq> [])"

text \<open>\<^verbatim>\<open>const isDev = process.env.NODE_ENV !== 'production';\<close>\<close>

definition isDev :: "env \<Rightarrow> bool" where
  "isDev cfg = (NODE_ENV cfg \<noteq> Some ''production'')"

text \<open>
  A message handed to the email transport. \<open>sandboxMode\<close> says whether the object
  carries \<^verbatim>\<open>mailSettings: { sandboxMode: { enable: true } }\<close>.
\<close>

record message =
  msg_to :: jsval
  msg_from :: string
  msg_subject :: string
  msg_html :: string
  sandboxMode :: bool

text \<open>
  The verified event: its \<^verbatim>\<open>type\<close> and its \<^verbatim>\<open>data.object\<close>, which the processor's
  library always delivers as an object.
\<close>

record event =
  ev_type :: string
  data_object :: "string \<Rightarrow> jsval option"

text \<open>
  An error of the email transport: \<^verbatim>\<open>err.response?.body\<close> (\<^verbatim>\<open>undefined\<close> when
  there is no response) and \<^verbatim>\<open>err.message\<close>.
\<close>

record sg_error =
  response_body :: jsval
  err_message :: jsval

text \<open>
  The collaborators of the webhook, as functions of their arguments: a call either throws
  (\<open>Inl\<close> of the error message, \<open>Some\<close> error for the transport) or returns. Within one
  delivery each of them is called at most once per argument.
\<close>

record collaborators =
  constructEvent :: "string \<Rightarrow> string option \<Rightarrow> string option \<Rightarrow> string + event"
  subscriptions_retrieve :: "jsval \<Rightarrow> string + (string \<Rightarrow> jsval option)"
  customers_retrieve :: "jsval \<Rightarrow> string + (string \<Rightarrow> jsval option)"
  sgMail_send :: "message \<Rightarrow> sg_error option"

text \<open>The six \<^verbatim>\<open>console.error\<close> lines that report a failed send, by their place.\<close>

datatype send_site =
    Donor_checkout | Internal_checkout
  | Donor_PI | Internal_PI
  | Donor_invoice | Internal_invoice

text \<open>Everything the handler does besides answering, in the order it does it.\<close>

datatype effect =
    Log_webhook_received
  | Log_signature_failed string
  | Log_send_failed send_site jsval
  | Log_expand_failed string
  | Log_handler_error exn
  | Call_subscriptions_retrieve jsval
  | Call_customers_retrieve jsval
  | Call_sgMail_send message

datatype res_body = No_body | Text_body string | Json_body "string \<Rightarrow> jsval option" | Error_body exn

record response =
  status :: nat
  body :: res_body

section \<open>Notification composer\<close>

definition nl :: string where
  "nl = [CHR 0x0A]"

text \<open>The en dash of the signature line, in UTF-8.\<close>

definition en_dash :: string where
  "en_dash = [CHR 0xE2, CHR 0x80, CHR 0x93]"

definition sender :: string where
  "sender = ''bridgesdonations@bridgestowork.org''"

text \<open>\<^verbatim>\<open>(amount / 100).toFixed(2)\<close>; the division converts \<^verbatim>\<open>amount\<close> to a Number.\<close>

definition dollars :: "ecma \<Rightarrow> jsval \<Rightarrow> exn + string" where
  "dollars E amount =
     (case ToNumber E amount of
        Inl e \<Rightarrow> Inl e
      | Inr x \<Rightarrow> Inr (toFixed2 E (js_div x (Fin 100))))"

text \<open>
  \<^verbatim>\<open>${md.dedication ? `<p><strong>Dedication:</strong> ${md.dedication}</p>` : ''}\<close>
  and the same line for \<^verbatim>\<open>notifyEmail\<close>; the text is the same on all three paths.
\<close>

definition dedication_line :: "ecma \<Rightarrow> jsval \<Rightarrow> exn + string" where
  "dedication_line E md =
     (if truthy (js_get md ''dedication'')
      then concatE [Inr ''<p><strong>Dedication:</strong> '',
                    ToString E (js_get md ''dedication''),
                    Inr ''</p>'']
      else Inr [])"

definition notify_line :: "ecma \<Rightarrow> jsval \<Rightarrow> exn + string" where
  "notify_line E md =
     (if truthy (js_get md ''notifyEmail'')
      then concatE [Inr ''<p><strong>Acknowledgement Email To:</strong> '',
                    ToString E (js_get md ''notifyEmail''),
                    Inr ''</p>'']
      else Inr [])"

text \<open>The donor body of the Checkout and PaymentIntent paths (lines 62-68 and 117-123).\<close>

definition donor_html :: "ecma \<Rightarrow> jsval \<Rightarrow> jsval \<Rightarrow> exn + string" where
  "donor_html E md amount =
     concatE
      [Inr (nl @ ''            <p>Hi ''),
       ToString E (js_or (js_get md ''donor_name'') (JStr ''Friend'')),
       Inr ('',</p>''
            @ nl @ ''            <p>Thank you for your generous donation of <strong>$''),
       dollars E amount,
       Inr (''</strong>.</p>''
            @ nl @ ''            ''),
       dedication_line E md,
       Inr (nl @ ''            <p>We truly appreciate your support.</p>''
            @ nl @ ''            <p>'' @ en_dash @ '' The Bridges to Work Team</p>''
            @ nl @ ''          '')]"

text \<open>The donor body of the invoice path (lines 178-183).\<close>

definition donor_html_invoice :: "ecma \<Rightarrow> jsval \<Rightarrow> jsval \<Rightarrow> exn + string" where
  "donor_html_invoice E md amount =
     concatE
      [Inr (nl @ ''            <p>Hi ''),
       ToString E (js_or (js_get md ''donor_name'') (JStr ''Friend'')),
       Inr ('',</p>''
            @ nl @ ''            <p>We received your monthly donation of <strong>$''),
       dollars E amount,
       Inr (''</strong>. Thank you!</p>''
            @ nl @ ''            ''),
       dedication_line E md,
       Inr (nl @ ''            <p>'' @ en_dash @ '' The Bridges to Work Team</p>''
            @ nl @ ''          '')]"

text \<open>
  The internal body (lines 81-91, 135-145, 195-205); the three copies differ in the text
  after \<^verbatim>\<open>Frequency:\<close> only, which is the parameter \<open>freq\<close>: the printed
  \<^verbatim>\<open>${frequency}\<close> on the Checkout path, a constant on the other two.
\<close>

definition internal_html ::
  "ecma \<Rightarrow> jsval \<Rightarrow> jsval \<Rightarrow> exn + string \<Rightarrow> jsval \<Rightarrow> exn + string" where
  "internal_html E md amount freq donorEmail =
     concatE
      [Inr (nl @ ''            <p><strong>Amount:</strong> $''),
       dollars E amount,
       Inr (''</p>''
            @ nl @ ''            <p><strong>Frequency:</strong> ''),
       freq,
       Inr (''</p>''
            @ nl @ ''            <p><strong>Name:</strong> ''),
       ToString E (js_or (js_get md ''donor_name'') (JStr ''N/A'')),
       Inr (''</p>''
            @ nl @ ''            <p><strong>Email:</strong> ''),
       ToString E (js_or donorEmail (JStr ''N/A'')),
       Inr (''</p>''
            @ nl @ ''            <p><strong>Phone:</strong> ''),
       ToString E (js_or (js_get md ''phone'') (JStr ''N/A'')),
       Inr (''</p>''
            @ nl @ ''            <p><strong>Address:</strong> ''),
       ToString E (js_or (js_get md ''address'') (JStr [])),
       Inr '', '',
       ToString E (js_or (js_get md ''city'') (JStr [])),
       Inr '', '',
       ToString E (js_or (js_get md ''state'') (JStr [])),
       Inr '', '',
       ToString E (js_or (js_get md ''zip'') (JStr [])),
       Inr (''</p>''
            @ nl @ ''            ''),
       dedication_line E md,
       Inr (nl @ ''            ''),
       notify_line E md,
       Inr (nl @ ''            <p><strong>Subscribed to Newsletter:</strong> ''
            @ (if is_str (js_get md ''subscribeToNewsletter'') ''Yes'' then ''Yes'' else ''No'')
            @ ''</p>''
            @ nl @ ''          '')]"

text \<open>
  \<^verbatim>\<open>process.env.INTERNAL_EMAILS.split(',').map(s => s.trim()).filter(Boolean)\<close>
\<close>

definition internal_recipients :: "string \<Rightarrow> jsval" where
  "internal_recipients s = JArr (map JStr (filter (\<lambda>a. a \<noteq> []) (map trim (split_comma s))))"

text \<open>
  The object literal of a message: \<^verbatim>\<open>subject\<close> is evaluated before \<^verbatim>\<open>html\<close>, and a
  throw of either leaves no message.
\<close>

definition compose :: "jsval \<Rightarrow> exn + string \<Rightarrow> exn + string \<Rightarrow> bool \<Rightarrow> exn + message" where
  "compose recipient subject html dev =
     (case subject of
        Inl e \<Rightarrow> Inl e
      | Inr s \<Rightarrow>
          (case html of
             Inl e \<Rightarrow> Inl e
           | Inr h \<Rightarrow>
               Inr \<lparr>msg_to = recipient, msg_from = sender, msg_subject = s, msg_html = h,
                    sandboxMode = dev\<rparr>))"

section \<open>Webhook dispatcher\<close>

text \<open>
  How a stretch of the handler ends: it runs to its end, it answers the request and
  returns, or it throws to the \<^verbatim>\<open>catch\<close> of the handler.
\<close>

datatype flow = Continue | Return response | Throw exn

text \<open>One stretch after another: the second runs when the first ran to its end.\<close>

definition then_flow :: "flow \<times> effect list \<Rightarrow> flow \<times> effect list \<Rightarrow> flow \<times> effect list" where
  "then_flow a b =
     (case a of
        (Continue, t1) \<Rightarrow> (case b of (f, t2) \<Rightarrow> (f, t1 @ t2))
      | _ \<Rightarrow> a)"

text \<open>
  \<^verbatim>\<open>try { await sgMail.send(msg); }
  catch (err) { console.error('... failed:', err.response?.body || err.message); }\<close>
\<close>

definition logged :: "sg_error \<Rightarrow> jsval" where
  "logged err = js_or (response_body err) (err_message err)"

definition try_send :: "collaborators \<Rightarrow> send_site \<Rightarrow> message \<Rightarrow> effect list" where
  "try_send w site m =
     Call_sgMail_send m #
     (case sgMail_send w m of
        None \<Rightarrow> []
      | Some err \<Rightarrow> [Log_send_failed site (logged err)])"

text \<open>
  \<^verbatim>\<open>const msg = { ... }; try { await sgMail.send(msg); } catch (err) { ... }\<close>: the
  message is composed outside the \<^verbatim>\<open>try\<close> of its send, so a throw while composing it
  leaves the block.
\<close>

definition send_composed :: "collaborators \<Rightarrow> send_site \<Rightarrow> exn + message \<Rightarrow> flow \<times> effect list" where
  "send_composed w site composed =
     (case composed of
        Inl e \<Rightarrow> (Throw e, [])
      | Inr m \<Rightarrow> (Continue, try_send w site m))"

text \<open>The guard \<^verbatim>\<open>if (process.env.SENDGRID_API_KEY && donorEmail)\<close>.\<close>

definition when_donor ::
  "env \<Rightarrow> jsval \<Rightarrow> flow \<times> effect list \<Rightarrow> flow \<times> effect list" where
  "when_donor cfg donorEmail f =
     (if env_truthy (SENDGRID_API_KEY cfg) \<and> truthy donorEmail then f else (Continue, []))"

text \<open>The guard \<^verbatim>\<open>if (process.env.SENDGRID_API_KEY && process.env.INTERNAL_EMAILS)\<close>.\<close>

definition when_internal ::
  "env \<Rightarrow> (string \<Rightarrow> flow \<times> effect list) \<Rightarrow> flow \<times> effect list" where
  "when_internal cfg f =
     (case INTERNAL_EMAILS cfg of
        None \<Rightarrow> (Continue, [])
      | Some s \<Rightarrow> if env_truthy (SENDGRID_API_KEY cfg) \<and> s \<noteq> [] then f s else (Continue, []))"

text \<open>Lines 49-97: \<^verbatim>\<open>if (event.type === 'checkout.session.completed') { ... }\<close>\<close>

definition checkout_donor_msg ::
  "ecma \<Rightarrow> env \<Rightarrow> jsval \<Rightarrow> jsval \<Rightarrow> jsval \<Rightarrow> jsval \<Rightarrow> exn + message" where
  "checkout_donor_msg E cfg donorEmail metadata amount frequency =
     compose donorEmail
       (Inr (''Thank you for your ''
             @ (if is_str frequency ''monthly'' then ''monthly'' else ''one-time'')
             @ '' donation!''))
       (donor_html E metadata amount)
       (isDev cfg)"

definition checkout_internal_msg ::
  "ecma \<Rightarrow> env \<Rightarrow> string \<Rightarrow> jsval \<Rightarrow> jsval \<Rightarrow> jsval \<Rightarrow> jsval \<Rightarrow> exn + message" where
  "checkout_internal_msg E cfg emails donorEmail metadata amount frequency =
     compose (internal_recipients emails)
       (concatE [Inr ''New Donation via Stripe: $'', dollars E amount, Inr '' from '',
                 ToString E (js_or (js_get metadata ''donor_name'') (JStr ''Unknown''))])
       (internal_html E metadata amount (ToString E frequency) donorEmail)
       (isDev cfg)"

definition checkout_session_completed ::
  "ecma \<Rightarrow> env \<Rightarrow> collaborators \<Rightarrow> (string \<Rightarrow> jsval option) \<Rightarrow> flow \<times> effect list" where
  "checkout_session_completed E cfg w session =
     (let donorEmail = obj_get session ''customer_email'';
          metadata = js_or (obj_get session ''metadata'') (JObj Map.empty);
          amount = obj_get session ''amount_total'';
          frequency = js_or (js_get metadata ''frequency'') (JStr ''one_time'')
      in then_flow
           (when_donor cfg donorEmail
              (send_composed w Donor_checkout
                 (checkout_donor_msg E cfg donorEmail metadata amount frequency)))
           (when_internal cfg (\<lambda>emails.
              send_composed w Internal_checkout
                (checkout_internal_msg E cfg emails donorEmail metadata amount frequency))))"

text \<open>
  Lines 100-151: \<^verbatim>\<open>if (event.type === 'payment_intent.succeeded') { ... }\<close>. The block
  answers at once, with 200, when the intent belongs to an invoice. The source's \<^verbatim>\<open>pi\<close>
  is \<open>intent\<close> here.
\<close>

definition pi_donor_msg :: "ecma \<Rightarrow> env \<Rightarrow> jsval \<Rightarrow> jsval \<Rightarrow> jsval \<Rightarrow> exn + message" where
  "pi_donor_msg E cfg donorEmail md amount =
     compose donorEmail
       (Inr ''Thank you for your donation!'')
       (donor_html E md amount)
       (isDev cfg)"

definition pi_internal_msg ::
  "ecma \<Rightarrow> env \<Rightarrow> string \<Rightarrow> jsval \<Rightarrow> jsval \<Rightarrow> jsval \<Rightarrow> exn + message" where
  "pi_internal_msg E cfg emails donorEmail md amount =
     compose (internal_recipients emails)
       (concatE [Inr ''New Donation: $'', dollars E amount, Inr '' from '',
                 ToString E (js_or (js_get md ''donor_name'') (JStr ''Unknown''))])
       (internal_html E md amount (Inr ''one_time'') donorEmail)
       (isDev cfg)"

definition payment_intent_succeeded ::
  "ecma \<Rightarrow> env \<Rightarrow> collaborators \<Rightarrow> (string \<Rightarrow> jsval option) \<Rightarrow> flow \<times> effect list" where
  "payment_intent_succeeded E cfg w intent =
     (if truthy (obj_get intent ''invoice'') then (Return \<lparr>status = 200, body = No_body\<rparr>, [])
      else
        let amount = obj_get intent ''amount'';
            donorEmail = js_or (obj_get intent ''receipt_email'') JNull;
            md = js_or (obj_get intent ''metadata'') (JObj Map.empty)
        in then_flow
             (when_donor cfg donorEmail
                (send_composed w Donor_PI (pi_donor_msg E cfg donorEmail md amount)))
             (when_internal cfg (\<lambda>emails.
                send_composed w Internal_PI (pi_internal_msg E cfg emails donorEmail md amount))))"

text \<open>
  Lines 157-171: the enrichment of an invoice, inside its own \<^verbatim>\<open>try\<close>. The result is
  the donor email, the metadata and the effects; a lookup that throws leaves both
  variables as they were at that moment and logs a warning.
\<close>

definition expand_invoice ::
  "collaborators \<Rightarrow> (string \<Rightarrow> jsval option) \<Rightarrow> jsval \<times> jsval \<times> effect list" where
  "expand_invoice w invoice =
     (let donorEmail = js_or (obj_get invoice ''customer_email'') JNull;
          subscription = obj_get invoice ''subscription''
      in if truthy subscription then
           (case subscriptions_retrieve w subscription of
              Inl e \<Rightarrow>
                (donorEmail, JObj Map.empty,
                 [Call_subscriptions_retrieve subscription, Log_expand_failed e])
            | Inr sub \<Rightarrow>
                let md = js_or (obj_get sub ''metadata'') (JObj Map.empty);
                    customer_id = obj_get sub ''customer''
                in if \<not> truthy donorEmail \<and> truthy customer_id then
                     (case customers_retrieve w customer_id of
                        Inl e \<Rightarrow>
                          (donorEmail, md,
                           [Call_subscriptions_retrieve subscription,
                            Call_customers_retrieve customer_id, Log_expand_failed e])
                      | Inr customer \<Rightarrow>
                          (js_or (obj_get customer ''email'') donorEmail, md,
                           [Call_subscriptions_retrieve subscription,
                            Call_customers_retrieve customer_id]))
                   else (donorEmail, md, [Call_subscriptions_retrieve subscription]))
         else (donorEmail, JObj Map.empty, []))"

text \<open>Lines 154-211: \<^verbatim>\<open>if (event.type === 'invoice.payment_succeeded') { ... }\<close>\<close>

definition invoice_donor_msg :: "ecma \<Rightarrow> env \<Rightarrow> jsval \<Rightarrow> jsval \<Rightarrow> jsval \<Rightarrow> exn + message" where
  "invoice_donor_msg E cfg donorEmail md amount =
     compose donorEmail
       (Inr ''Thank you for your monthly donation!'')
       (donor_html_invoice E md amount)
       (isDev cfg)"

definition invoice_internal_msg ::
  "ecma \<Rightarrow> env \<Rightarrow> string \<Rightarrow> jsval \<Rightarrow> jsval \<Rightarrow> jsval \<Rightarrow> exn + message" where
  "invoice_internal_msg E cfg emails donorEmail md amount =
     compose (internal_recipients emails)
       (concatE [Inr ''Monthly Donation Received: $'', dollars E amount, Inr '' from '',
                 ToString E (js_or (js_get md ''donor_name'') (JStr ''Unknown''))])
       (internal_html E md amount (Inr ''monthly'') donorEmail)
       (isDev cfg)"

text \<open>Lines 173-210: the two messages of the invoice path.\<close>

definition invoice_sends ::
  "ecma \<Rightarrow> env \<Rightarrow> collaborators \<Rightarrow> jsval \<Rightarrow> jsval \<Rightarrow> jsval \<Rightarrow> flow \<times> effect list" where
  "invoice_sends E cfg w amount donorEmail md =
     then_flow
       (when_donor cfg donorEmail
          (send_composed w Donor_invoice (invoice_donor_msg E cfg donorEmail md amount)))
       (when_internal cfg (\<lambda>emails.
          send_composed w Internal_invoice
            (invoice_internal_msg E cfg emails donorEmail md amount)))"

definition invoice_payment_succeeded ::
  "ecma \<Rightarrow> env \<Rightarrow> collaborators \<Rightarrow> (string \<Rightarrow> jsval option) \<Rightarrow> flow \<times> effect list" where
  "invoice_payment_succeeded E cfg w invoice =
     (let amount = obj_get invoice ''amount_paid''
      in case expand_invoice w invoice of
           (donorEmail, md, lookups) \<Rightarrow>
             then_flow (Continue, lookups) (invoice_sends E cfg w amount donorEmail md))"

text \<open>
  How the handler answers (lines 213-217): \<^verbatim>\<open>res.status(200).send()\<close> after the three
  blocks; the answer already given by a block that returned; and in the \<^verbatim>\<open>catch\<close>,
  \<^verbatim>\<open>console.error('Webhook handler error:', e); res.status(500).send();\<close>
\<close>

definition answer :: "flow \<times> effect list \<Rightarrow> response \<times> effect list" where
  "answer r =
     (case r of
        (Continue, tr) \<Rightarrow> (\<lparr>status = 200, body = No_body\<rparr>, tr)
      | (Return res, tr) \<Rightarrow> (res, tr)
      | (Throw e, tr) \<Rightarrow> (\<lparr>status = 500, body = No_body\<rparr>, tr @ [Log_handler_error e]))"

text \<open>Lines 47-217: the three blocks in the order of the source, inside the outer \<^verbatim>\<open>try\<close>.\<close>

definition handle_event :: "ecma \<Rightarrow> env \<Rightarrow> collaborators \<Rightarrow> event \<Rightarrow> response \<times> effect list" where
  "handle_event E cfg w ev =
     answer
       (then_flow
          (if ev_type ev = ''checkout.session.completed''
           then checkout_session_completed E cfg w (data_object ev) else (Continue, []))
          (then_flow
             (if ev_type ev = ''payment_intent.succeeded''
              then payment_intent_succeeded E cfg w (data_object ev) else (Continue, []))
             (if ev_type ev = ''invoice.payment_succeeded''
              then invoice_payment_succeeded E cfg w (data_object ev) else (Continue, []))))"

text \<open>
  Lines 35-45: the request is its raw body and its \<^verbatim>\<open>stripe-signature\<close> header; the
  library's \<^verbatim>\<open>constructEvent\<close> verifies and parses, or throws.
\<close>

record webhook_request =
  raw_body :: string
  stripe_signature :: "string option"

definition webhook ::
  "ecma \<Rightarrow> env \<Rightarrow> collaborators \<Rightarrow> webhook_request \<Rightarrow> response \<times> effect list" where
  "webhook E cfg w req =
     (case constructEvent w (raw_body req) (stripe_signature req) (STRIPE_WEBHOOK_SECRET cfg) of
        Inl msg \<Rightarrow>
          (\<lparr>status = 400, body = Text_body (''Webhook Error: '' @ msg)\<rparr>,
           [Log_webhook_received, Log_signature_failed msg])
      | Inr ev \<Rightarrow>
          (case handle_event E cfg w ev of (res, tr) \<Rightarrow> (res, Log_webhook_received # tr)))"

text \<open>What a trace shows of the transport, of the lookups and of the failure log.\<close>

definition sends :: "effect list \<Rightarrow> message list" where
  "sends tr = List.map_filter (\<lambda>e. case e of Call_sgMail_send m \<Rightarrow> Some m | _ \<Rightarrow> None) tr"

definition lookups :: "effect list \<Rightarrow> jsval list" where
  "lookups tr =
     List.map_filter (\<lambda>e. case e of Call_subscriptions_retrieve v \<Rightarrow> Some v
                               | Call_customers_retrieve v \<Rightarrow> Some v | _ \<Rightarrow> None) tr"



section \<open>Session and intent gateway\<close>

text \<open>
  The own enumerable properties that an object spread \<^verbatim>\<open>...v\<close> copies: those of an
  object; the indices of an array; the indices of a string, one per UTF-16 code unit; none
  of a number, a boolean, \<^verbatim>\<open>null\<close> or \<^verbatim>\<open>undefined\<close>.
\<close>

definition index_props :: "jsval list \<Rightarrow> (string \<Rightarrow> jsval option)" where
  "index_props xs = map_of (zip (map show_nat [0..<length xs]) xs)"

definition own_props :: "ecma \<Rightarrow> jsval \<Rightarrow> (string \<Rightarrow> jsval option)" where
  "own_props E v =
     (case v of
        JObj m \<Rightarrow> m
      | JArr xs \<Rightarrow> index_props xs
      | JStr s \<Rightarrow> index_props (map JStr (CodeUnits E s))
      | _ \<Rightarrow> Map.empty)"

text \<open>\<^verbatim>\<open>String(metadata.newsletter_opt_in) === 'true' ? 'Yes' : 'No'\<close>\<close>

definition newsletter :: "ecma \<Rightarrow> jsval \<Rightarrow> exn + jsval" where
  "newsletter E metadata =
     (case ToString E (js_get metadata ''newsletter_opt_in'') of
        Inl e \<Rightarrow> Inl e
      | Inr s \<Rightarrow> Inr (if s = ''true'' then JStr ''Yes'' else JStr ''No''))"

text \<open>The argument of \<^verbatim>\<open>stripe.paymentIntents.create\<close> (lines 335-353).\<close>

record pi_create_params =
  pi_amount :: jsnum
  pi_currency :: jsval
  pi_automatic_payment_methods_enabled :: bool
  pi_receipt_email :: jsval
  pi_metadata :: "string \<Rightarrow> jsval option"

text \<open>
  Lines 320-353 of \<^verbatim>\<open>POST /create-payment-intent\<close>, up to the call of the processor.
  \<open>b\<close> is \<^verbatim>\<open>req.body\<close>. The first read of \<^verbatim>\<open>metadata\<close> throws when the client sent
  \<^verbatim>\<open>null\<close> for it; \<^verbatim>\<open>Number\<close> and \<^verbatim>\<open>String\<close> throw as described above.
\<close>

definition payment_intent_params ::
  "ecma \<Rightarrow> (string \<Rightarrow> jsval option) \<Rightarrow> exn + pi_create_params" where
  "payment_intent_params E b =
     (let amountCents = obj_get b ''amountCents'';
          currency = dflt (obj_get b ''currency'') (JStr ''usd'');
          donorEmail = obj_get b ''donorEmail'';
          donorName = obj_get b ''donorName'';
          coverFees = dflt (obj_get b ''coverFees'') (JBool False);
          metadata = dflt (obj_get b ''metadata'') (JObj Map.empty)
      in case js_get_or_throw metadata ''base_amount_cents'' of
           Inl e \<Rightarrow> Inl e
         | Inr base_amount_cents \<Rightarrow>
        (case ToNumber E (js_or base_amount_cents (JNum (Fin 0))) of
           Inl e \<Rightarrow> Inl e
         | Inr base \<Rightarrow>
        (case (if js_gt base (Fin 0)
               then computeGrossCents E (JNum base) coverFees
               else ToNumber E amountCents) of
           Inl e \<Rightarrow> Inl e
         | Inr totalCents \<Rightarrow>
        (case newsletter E metadata of
           Inl e \<Rightarrow> Inl e
         | Inr subscribed \<Rightarrow>
             Inr \<lparr>pi_amount = totalCents,
                  pi_currency = currency,
                  pi_automatic_payment_methods_enabled = True,
                  pi_receipt_email = donorEmail,
                  pi_metadata =
                    [''donor_name'' \<mapsto> js_or donorName (JStr []),
                     ''phone'' \<mapsto> js_or (js_get metadata ''phone'') (JStr []),
                     ''address'' \<mapsto> js_or (js_get metadata ''address1'') (JStr []),
                     ''city'' \<mapsto> js_or (js_get metadata ''city'') (JStr []),
                     ''state'' \<mapsto> js_or (js_get metadata ''state'') (JStr []),
                     ''zip'' \<mapsto> js_or (js_get metadata ''zip'') (JStr []),
                     ''dedication'' \<mapsto> js_or (js_get metadata ''dedication_text'') (JStr []),
                     ''notifyEmail'' \<mapsto> js_or (js_get metadata ''notify_email'') (JStr []),
                     ''subscribeToNewsletter'' \<mapsto> subscribed,
                     ''frequency'' \<mapsto> JStr ''one_time'']
                    ++ own_props E metadata\<rparr>))))"

text \<open>The argument of \<^verbatim>\<open>stripe.subscriptions.create\<close> (lines 403-427).\<close>

record sub_create_params =
  sub_customer :: jsval
  sub_currency :: jsval
  sub_product_name :: string
  sub_interval :: jsval
  sub_unit_amount :: jsnum
  sub_metadata :: "string \<Rightarrow> jsval option"
  sub_expand :: "string list"

text \<open>
  Lines 388-427 of \<^verbatim>\<open>POST /create-subscription\<close>: the argument of the last call, its
  properties evaluated in the order of the source.
\<close>

definition subscription_params ::
  "ecma \<Rightarrow> (string \<Rightarrow> jsval option) \<Rightarrow> exn + sub_create_params" where
  "subscription_params E b =
     (let customerId = obj_get b ''customerId'';
          amountCents = obj_get b ''amountCents'';
          currency = dflt (obj_get b ''currency'') (JStr ''usd'');
          interval = dflt (obj_get b ''interval'') (JStr ''month'');
          metadata = dflt (obj_get b ''metadata'') (JObj Map.empty)
      in case ToNumber E amountCents of
           Inl e \<Rightarrow> Inl e
         | Inr unit_amount \<Rightarrow>
        (case js_get_or_throw metadata ''first_name'' of
           Inl e \<Rightarrow> Inl e
         | Inr first_name \<Rightarrow>
        (case concatE [ToString E (js_or first_name (JStr [])), Inr '' '',
                       ToString E (js_or (js_get metadata ''last_name'') (JStr []))] of
           Inl e \<Rightarrow> Inl e
         | Inr full_name \<Rightarrow>
        (case newsletter E metadata of
           Inl e \<Rightarrow> Inl e
         | Inr subscribed \<Rightarrow>
             Inr \<lparr>sub_customer = customerId,
                  sub_currency = currency,
                  sub_product_name = ''Monthly Donation'',
                  sub_interval = interval,
                  sub_unit_amount = unit_amount,
                  sub_metadata =
                    [''frequency'' \<mapsto> JStr ''monthly'',
                     ''donor_name'' \<mapsto> JStr (trim full_name),
                     ''phone'' \<mapsto> js_or (js_get metadata ''phone'') (JStr []),
                     ''address'' \<mapsto> js_or (js_get metadata ''address1'') (JStr []),
                     ''city'' \<mapsto> js_or (js_get metadata ''city'') (JStr []),
                     ''state'' \<mapsto> js_or (js_get metadata ''state'') (JStr []),
                     ''zip'' \<mapsto> js_or (js_get metadata ''zip'') (JStr []),
                     ''dedication'' \<mapsto> js_or (js_get metadata ''dedication_text'') (JStr []),
                     ''notifyEmail'' \<mapsto> js_or (js_get metadata ''notify_email'') (JStr []),
                     ''subscribeToNewsletter'' \<mapsto> subscribed]
                    ++ own_props E metadata,
                  sub_expand = [''latest_invoice.payment_intent'']\<rparr>))))"

text \<open>
  The processor's API as the two endpoints use it: a call throws (\<open>Inl\<close> of the error's
  \<^verbatim>\<open>message\<close>) or returns an object.
\<close>

record processor =
  paymentIntents_create :: "pi_create_params \<Rightarrow> jsval + (string \<Rightarrow> jsval option)"
  paymentMethods_attach :: "jsval \<Rightarrow> jsval \<Rightarrow> jsval + unit"
  customers_update :: "jsval \<Rightarrow> jsval \<Rightarrow> jsval + unit"
  subscriptions_create :: "sub_create_params \<Rightarrow> jsval + (string \<Rightarrow> jsval option)"

datatype gateway_effect =
    Call_paymentIntents_create pi_create_params
  | Call_paymentMethods_attach jsval jsval
  | Call_customers_update jsval jsval
  | Call_subscriptions_create sub_create_params
  | Log_gateway_error exn

text \<open>
  The \<^verbatim>\<open>catch\<close> of both endpoints:
  \<^verbatim>\<open>console.error(...); res.status(400).json({ error: { message: err.message } });\<close>
\<close>

definition bad_request :: "exn \<Rightarrow> gateway_effect list \<Rightarrow> response \<times> gateway_effect list" where
  "bad_request e tr = (\<lparr>status = 400, body = Error_body e\<rparr>, tr @ [Log_gateway_error e])"

text \<open>Lines 318-360.\<close>

definition create_payment_intent ::
  "ecma \<Rightarrow> processor \<Rightarrow> (string \<Rightarrow> jsval option) \<Rightarrow> response \<times> gateway_effect list" where
  "create_payment_intent E p b =
     (case payment_intent_params E b of
        Inl e \<Rightarrow> bad_request e []
      | Inr params \<Rightarrow>
          (case paymentIntents_create p params of
             Inl msg \<Rightarrow> bad_request (Thrown msg) [Call_paymentIntents_create params]
           | Inr intent \<Rightarrow>
               (\<lparr>status = 200,
                 body = Json_body [''clientSecret'' \<mapsto> obj_get intent ''client_secret'']\<rparr>,
                [Call_paymentIntents_create params])))"

text \<open>
  Lines 386-434. The payment method is attached and made the default before the argument
  of \<^verbatim>\<open>subscriptions.create\<close> is built, so a \<^verbatim>\<open>null\<close> metadata throws after both calls.
\<close>

definition create_subscription ::
  "ecma \<Rightarrow> processor \<Rightarrow> (string \<Rightarrow> jsval option) \<Rightarrow> response \<times> gateway_effect list" where
  "create_subscription E p b =
     (let customerId = obj_get b ''customerId'';
          paymentMethodId = obj_get b ''paymentMethodId''
      in case paymentMethods_attach p paymentMethodId customerId of
           Inl msg \<Rightarrow>
             bad_request (Thrown msg) [Call_paymentMethods_attach paymentMethodId customerId]
         | Inr _ \<Rightarrow>
             (case customers_update p customerId paymentMethodId of
                Inl msg \<Rightarrow>
                  bad_request (Thrown msg)
                    [Call_paymentMethods_attach paymentMethodId customerId,
                     Call_customers_update customerId paymentMethodId]
              | Inr _ \<Rightarrow>
                  (case subscription_params E b of
                     Inl e \<Rightarrow>
                       bad_request e
                         [Call_paymentMethods_attach paymentMethodId customerId,
                          Call_customers_update customerId paymentMethodId]
                   | Inr params \<Rightarrow>
                       (case subscriptions_create p params of
                          Inl msg \<Rightarrow>
                            bad_request (Thrown msg)
                              [Call_paymentMethods_attach paymentMethodId customerId,
                               Call_customers_update customerId paymentMethodId,
                               Call_subscriptions_create params]
                        | Inr subscription \<Rightarrow>
                            (\<lparr>status = 200,
                              body = Json_body
                                [''subscriptionId'' \<mapsto> obj_get subscription ''id'',
                                 ''status'' \<mapsto> obj_get subscription ''status'']\<rparr>,
                             [Call_paymentMethods_attach paymentMethodId customerId,
                              Call_customers_update customerId paymentMethodId,
                              Call_subscriptions_create params])))))"

section \<open>Sample deliveries\<close>

text \<open>
  A configuration, some events and a set of collaborators, for the closed examples. The
  sample library accepts one signature header and reads the event from the body by name;
  the sample lookups know two subscriptions and no customer; the sample transport rejects
  every message. None of the examples reaches one of the three operations taken as
  parameters, so any triple would do for them.
\<close>

definition ecma_stub :: ecma where
  "ecma_stub =
     \<lparr>StringToNumber = (\<lambda>s. NaN), NumberToString = (\<lambda>x. ''0''),
      CodeUnits = map (\<lambda>c. [c])\<rparr>"

definition sample_env :: env where
  "sample_env =
     \<lparr>SENDGRID_API_KEY = Some ''SG.sample'',
      INTERNAL_EMAILS = Some ''office@example.org, board@example.org'',
      NODE_ENV = Some ''production'',
      STRIPE_WEBHOOK_SECRET = Some ''whsec_sample''\<rparr>"

text \<open>An object as \<^verbatim>\<open>JSON.parse('{"toString": 1}')\<close> returns it.\<close>

definition odd_object :: jsval where
  "odd_object = JObj [''toString'' \<mapsto> JNum (Fin 1)]"

definition sample_event :: "string \<Rightarrow> event" where
  "sample_event raw =
     (if raw = ''checkout-monthly'' then
        \<lparr>ev_type = ''checkout.session.completed'',
         data_object = [''customer_email'' \<mapsto> JStr ''donor@example.org'',
                        ''amount_total'' \<mapsto> JNum (Fin 2550),
                        ''metadata'' \<mapsto> JObj [''frequency'' \<mapsto> JStr ''monthly'']]\<rparr>
      else if raw = ''checkout-once'' then
        \<lparr>ev_type = ''checkout.session.completed'',
         data_object = [''customer_email'' \<mapsto> JStr ''donor@example.org'',
                        ''amount_total'' \<mapsto> JNum (Fin 2550),
                        ''metadata'' \<mapsto> JObj [''frequency'' \<mapsto> JStr ''one_time'']]\<rparr>
      else if raw = ''checkout-odd-phone'' then
        \<lparr>ev_type = ''checkout.session.completed'',
         data_object = [''customer_email'' \<mapsto> JStr ''donor@example.org'',
                        ''amount_total'' \<mapsto> JNum (Fin 2550),
                        ''metadata'' \<mapsto> JObj [''phone'' \<mapsto> odd_object]]\<rparr>
      else if raw = ''pi-invoice'' then
        \<lparr>ev_type = ''payment_intent.succeeded'',
         data_object = [''invoice'' \<mapsto> JStr ''in_1'',
                        ''amount'' \<mapsto> JNum (Fin 2550),
                        ''receipt_email'' \<mapsto> JStr ''donor@example.org'']\<rparr>
      else if raw = ''pi-monthly'' then
        \<lparr>ev_type = ''payment_intent.succeeded'',
         data_object = [''invoice'' \<mapsto> JNull,
                        ''amount'' \<mapsto> JNum (Fin 2550),
                        ''receipt_email'' \<mapsto> JStr ''donor@example.org'',
                        ''metadata'' \<mapsto> JObj [''frequency'' \<mapsto> JStr ''monthly'']]\<rparr>
      else if raw = ''pi-once'' then
        \<lparr>ev_type = ''payment_intent.succeeded'',
         data_object = [''invoice'' \<mapsto> JNull,
                        ''amount'' \<mapsto> JNum (Fin 2550),
                        ''receipt_email'' \<mapsto> JStr ''donor@example.org'',
                        ''metadata'' \<mapsto> JObj [''frequency'' \<mapsto> JStr ''one_time'']]\<rparr>
      else if raw = ''pi-odd-name'' then
        \<lparr>ev_type = ''payment_intent.succeeded'',
         data_object = [''invoice'' \<mapsto> JNull,
                        ''amount'' \<mapsto> JNum (Fin 2550),
                        ''receipt_email'' \<mapsto> JStr ''donor@example.org'',
                        ''metadata'' \<mapsto> JObj [''donor_name'' \<mapsto> odd_object]]\<rparr>
      else if raw = ''invoice-plain'' then
        \<lparr>ev_type = ''invoice.payment_succeeded'',
         data_object = [''amount_paid'' \<mapsto> JNum (Fin 2550),
                        ''customer_email'' \<mapsto> JStr ''donor@example.org'',
                        ''subscription'' \<mapsto> JNull]\<rparr>
      else if raw = ''invoice-sub-gone'' then
        \<lparr>ev_type = ''invoice.payment_succeeded'',
         data_object = [''amount_paid'' \<mapsto> JNum (Fin 2550),
                        ''customer_email'' \<mapsto> JStr ''donor@example.org'',
                        ''subscription'' \<mapsto> JStr ''sub_gone'']\<rparr>
      else if raw = ''invoice-no-email'' then
        \<lparr>ev_type = ''invoice.payment_succeeded'',
         data_object = [''amount_paid'' \<mapsto> JNum (Fin 2550),
                        ''customer_email'' \<mapsto> JNull,
                        ''subscription'' \<mapsto> JStr ''sub_1'']\<rparr>
      else if raw = ''invoice-odd-name'' then
        \<lparr>ev_type = ''invoice.payment_succeeded'',
         data_object = [''amount_paid'' \<mapsto> JNum (Fin 2550),
                        ''customer_email'' \<mapsto> JNull,
                        ''subscription'' \<mapsto> JStr ''sub_odd'']\<rparr>
      else \<lparr>ev_type = ''customer.created'', data_object = Map.empty\<rparr>)"

definition sample_constructEvent :: "string \<Rightarrow> string option \<Rightarrow> string option \<Rightarrow> string + event" where
  "sample_constructEvent raw sig secret =
     (if sig = Some ''t=1,v1=sample'' then Inr (sample_event raw)
      else Inl ''No signatures found matching the expected signature for payload'')"

definition sample_subscriptions_retrieve :: "jsval \<Rightarrow> string + (string \<Rightarrow> jsval option)" where
  "sample_subscriptions_retrieve v =
     (case v of
        JStr s \<Rightarrow>
          if s = ''sub_1''
          then Inr [''metadata'' \<mapsto> JObj [''donor_name'' \<mapsto> JStr ''Ada''],
                    ''customer'' \<mapsto> JStr ''cus_gone'']
          else if s = ''sub_odd''
          then Inr [''metadata'' \<mapsto> JObj [''donor_name'' \<mapsto> odd_object],
                    ''customer'' \<mapsto> JStr ''cus_gone'']
          else Inl ''No such subscription''
      | _ \<Rightarrow> Inl ''No such subscription'')"

definition failing_collaborators :: collaborators where
  "failing_collaborators =
     \<lparr>constructEvent = sample_constructEvent,
      subscriptions_retrieve = sample_subscriptions_retrieve,
      customers_retrieve = (\<lambda>v. Inl ''No such customer''),
      sgMail_send = (\<lambda>m. Some \<lparr>response_body = JUndefined, err_message = JStr ''Unauthorized''\<rparr>)\<rparr>"

definition sample_request :: "string \<Rightarrow> webhook_request" where
  "sample_request raw = \<lparr>raw_body = raw, stripe_signature = Some ''t=1,v1=sample''\<rparr>"

text \<open>Sample request bodies of \<^verbatim>\<open>POST /create-payment-intent\<close>.\<close>

definition zero_base_body :: "string \<Rightarrow> jsval option" where
  "zero_base_body =
     [''amountCents'' \<mapsto> JNum (Fin 500),
      ''metadata'' \<mapsto> JObj [''base_amount_cents'' \<mapsto> JNum (Fin 0)]]"

definition base_body :: "string \<Rightarrow> jsval option" where
  "base_body =
     [''amountCents'' \<mapsto> JNum (Fin 1),
      ''metadata'' \<mapsto> JObj [''base_amount_cents'' \<mapsto> JNum (Fin 1000),
                               ''frequency'' \<mapsto> JStr ''monthly'']]"

definition plain_body :: "string \<Rightarrow> jsval option" where
  "plain_body = [''amountCents'' \<mapsto> JNum (Fin 500)]"

definition odd_optin_body :: "string \<Rightarrow> jsval option" where
  "odd_optin_body =
     [''amountCents'' \<mapsto> JNum (Fin 500),
      ''customerId'' \<mapsto> JStr ''cus_1'',
      ''paymentMethodId'' \<mapsto> JStr ''pm_1'',
      ''metadata'' \<mapsto> JObj [''newsletter_opt_in'' \<mapsto> odd_object]]"

text \<open>A sample body of \<^verbatim>\<open>POST /create-subscription\<close> and a processor that accepts every call.\<close>

definition sub_body :: "string \<Rightarrow> jsval option" where
  "sub_body =
     [''customerId'' \<mapsto> JStr ''cus_1'',
      ''paymentMethodId'' \<mapsto> JStr ''pm_1'',
      ''amountCents'' \<mapsto> JNum (Fin 2000),
      ''metadata'' \<mapsto> JObj [''first_name'' \<mapsto> JStr ''Ada'',
                               ''donor_name'' \<mapsto> JStr ''Anonymous'']]"

definition accepting_processor :: processor where
  "accepting_processor =
     \<lparr>paymentIntents_create = (\<lambda>p. Inr [''client_secret'' \<mapsto> JStr ''pi_1_secret'']),
      paymentMethods_attach = (\<lambda>pm c. Inr ()),
      customers_update = (\<lambda>c pm. Inr ()),
      subscriptions_create = (\<lambda>p. Inr [''id'' \<mapsto> JStr ''sub_1'', ''status'' \<mapsto> JStr ''active''])\<rparr>"


section \<open>Conversions: when they throw\<close>

lemma sequenceE_isl: "isl (sequenceE ps) \<longleftrightarrow> (\<exists>p\<in>set ps. isl p)"
  by (induction ps rule: sequenceE.induct) (auto split: sum.splits)

lemma sequenceE_Inl: "sequenceE ps = Inl e \<Longrightarrow> Inl e \<in> set ps"
  by (induction ps rule: sequenceE.induct) (auto split: sum.splits)

lemma concatE_isl: "isl (concatE ps) \<longleftrightarrow> (\<exists>p\<in>set ps. isl p)"
  using sequenceE_isl [of ps] by (auto simp: concatE_def split: sum.splits)

lemma concatE_Inl: "concatE ps = Inl e \<Longrightarrow> Inl e \<in> set ps"
  by (auto simp: concatE_def split: sum.splits dest: sequenceE_Inl)

lemma ToString_Inl: "ToString E v = Inl e \<Longrightarrow> e = TypeError"
proof (induction v arbitrary: e)
  case (JArr xs)
  then obtain x where x: "x \<in> set xs"
    "(case x of JUndefined \<Rightarrow> Inr [] | JNull \<Rightarrow> Inr [] | _ \<Rightarrow> ToString E x) = Inl e"
    by (auto split: sum.splits dest!: sequenceE_Inl)
  from x(2) have "ToString E x = Inl e" by (cases x) auto
  with JArr(1) [OF x(1)] show ?case by simp
next
  case (JNum x)
  then show ?case by (cases x) simp_all
qed (auto split: if_splits)

lemma elem_isl:
  "isl (case x of JUndefined \<Rightarrow> Inr [] | JNull \<Rightarrow> Inr [] | _ \<Rightarrow> ToString E x) \<longleftrightarrow> isl (ToString E x)"
  by (cases x) auto

lemma ToString_isl: "isl (ToString E v) \<longleftrightarrow> \<not> showable v"
proof (induction v)
  case (JArr xs)
  have "isl (ToString E (JArr xs))
      \<longleftrightarrow> (\<exists>x\<in>set xs. isl (case x of JUndefined \<Rightarrow> Inr [] | JNull \<Rightarrow> Inr [] | _ \<Rightarrow> ToString E x))"
    using sequenceE_isl [of "map (\<lambda>x. case x of JUndefined \<Rightarrow> Inr [] | JNull \<Rightarrow> Inr []
                                     | _ \<Rightarrow> ToString E x) xs"]
    by (cases "sequenceE (map (\<lambda>x. case x of JUndefined \<Rightarrow> Inr [] | JNull \<Rightarrow> Inr []
                                     | _ \<Rightarrow> ToString E x) xs)") simp_all
  also have "\<dots> \<longleftrightarrow> (\<exists>x\<in>set xs. \<not> showable x)"
    using JArr by (simp add: elem_isl)
  finally show ?case by (simp add: list_all_iff)
next
  case (JNum x)
  then show ?case by (cases x) simp_all
qed simp_all

lemma ToNumber_isl: "isl (ToNumber E v) \<longleftrightarrow> \<not> showable v"
proof (cases v)
  case (JArr xs)
  then show ?thesis using ToString_isl [of E "JArr xs"] by (auto split: sum.splits)
qed auto

lemma ToNumber_Inl: "ToNumber E v = Inl e \<Longrightarrow> e = TypeError"
proof (cases v)
  case (JArr xs)
  assume "ToNumber E v = Inl e"
  with JArr show ?thesis using ToString_Inl [of E "JArr xs" e] by (auto split: sum.splits)
qed (auto split: if_splits)

lemma falsy_showable: "\<not> truthy v \<Longrightarrow> showable v"
  by (cases v) auto


section \<open>Rounding: what the model's arithmetic guarantees\<close>

lemma rne_cases: "rne x = \<lfloor>x\<rfloor> \<or> rne x = \<lfloor>x\<rfloor> + 1"
  by (simp add: rne_def Let_def)

lemma rne_of_int: "rne (of_int k) = k"
  by (simp add: rne_def)

lemma rne_le: "x \<le> of_int k \<Longrightarrow> rne x \<le> k"
proof -
  assume a: "x \<le> of_int k"
  show ?thesis
  proof (cases "x = of_int k")
    case True
    then show ?thesis by (simp add: rne_of_int)
  next
    case False
    with a have "x < of_int k" by simp
    then have "\<lfloor>x\<rfloor> < k" by (simp add: floor_less_iff)
    with rne_cases [of x] show ?thesis by auto
  qed
qed

lemma rne_ge: "of_int k \<le> x \<Longrightarrow> k \<le> rne x"
proof -
  assume "of_int k \<le> x"
  then have "k \<le> \<lfloor>x\<rfloor>" by (simp add: le_floor_iff)
  with rne_cases [of x] show ?thesis by auto
qed

lemma rne_gt_half: "of_int k + 1 / 2 < x \<Longrightarrow> k + 1 \<le> rne x"
proof -
  assume a: "of_int k + 1 / 2 < x"
  then have k: "k \<le> \<lfloor>x\<rfloor>" by (simp add: le_floor_iff)
  show ?thesis
  proof (cases "k = \<lfloor>x\<rfloor>")
    case True
    with a have "1 / 2 < x - of_int \<lfloor>x\<rfloor>" by simp
    then have "rne x = \<lfloor>x\<rfloor> + 1" by (simp add: rne_def Let_def)
    with True show ?thesis by simp
  next
    case False
    with k have "k + 1 \<le> \<lfloor>x\<rfloor>" by simp
    with rne_cases [of x] show ?thesis by auto
  qed
qed

lemma rne_lt_half: "of_int k \<le> x \<Longrightarrow> x < of_int k + 1 / 2 \<Longrightarrow> rne x = k"
proof -
  assume a: "of_int k \<le> x" and b: "x < of_int k + 1 / 2"
  have "\<lfloor>x\<rfloor> = k" using a b by (intro floor_unique) auto
  with b show ?thesis by (simp add: rne_def Let_def)
qed

lemma rne_near: "\<bar>x - of_int k\<bar> < 1 / 2 \<Longrightarrow> rne x = k"
proof -
  assume a: "\<bar>x - of_int k\<bar> < 1 / 2"
  show ?thesis
  proof (cases "of_int k \<le> x")
    case True
    with a show ?thesis by (intro rne_lt_half) auto
  next
    case False
    then have lt: "x < of_int k" by simp
    have "of_int (k - 1) + 1 / 2 < x" using a lt by (simp add: abs_if split: if_splits)
    then have "k - 1 + 1 \<le> rne x" by (rule rne_gt_half)
    moreover have "rne x \<le> k" using lt by (intro rne_le) simp
    ultimately show ?thesis by simp
  qed
qed

lemma pow2_less_imp: "(2::rat) powi a < 2 powi b \<Longrightarrow> a < b"
proof (rule ccontr)
  assume a: "(2::rat) powi a < 2 powi b" and "\<not> a < b"
  then have "b \<le> a" by simp
  then have "(2::rat) powi b \<le> 2 powi a" by (intro power_int_increasing) auto
  with a show False by simp
qed

lemma ilog2_bounds:
  assumes "0 < x"
  shows "2 powi (ilog2 x) \<le> x" and "x < 2 powi (ilog2 x + 1)"
proof -
  obtain p q where pq: "quotient_of x = (p, q)" by (cases "quotient_of x")
  then have q: "0 < q" and x: "x = of_int p / of_int q"
    using quotient_of_denom_pos quotient_of_div by auto
  with assms have p: "0 < p" by (simp add: zero_less_divide_iff)
  define bp where "bp = bitlen p"
  define bq where "bq = bitlen q"
  have bp1: "1 \<le> bp" and bq1: "1 \<le> bq"
    using p q bitlen_eq_zero_iff [of p] bitlen_eq_zero_iff [of q]
      bitlen_nonneg [of p] bitlen_nonneg [of q]
    unfolding bp_def bq_def by linarith+
  have "2 ^ nat (bp - 1) \<le> p" "p < 2 ^ nat bp" "2 ^ nat (bq - 1) \<le> q" "q < 2 ^ nat bq"
    using bitlen_bounds [OF p] bitlen_bounds [OF q] unfolding bp_def bq_def by auto
  then have P: "(2::rat) ^ nat (bp - 1) \<le> of_int p" "of_int p < (2::rat) ^ nat bp"
    and Q: "(2::rat) ^ nat (bq - 1) \<le> of_int q" "of_int q < (2::rat) ^ nat bq"
    by (metis of_int_le_iff of_int_less_iff of_int_numeral of_int_power)+
  have P': "(2::rat) powi (bp - 1) \<le> of_int p" "of_int p < (2::rat) powi bp"
    and Q': "(2::rat) powi (bq - 1) \<le> of_int q" "of_int q < (2::rat) powi bq"
    using P Q bp1 bq1 by (simp_all add: power_int_def)
  have qpos: "(0::rat) < of_int q" and ppos: "(0::rat) < of_int p" using p q by simp_all
  have up: "x < 2 powi (bp - bq + 1)"
  proof -
    have "of_int p / of_int q < 2 powi bp / (2::rat) powi (bq - 1)"
      using P'(2) Q'(1) ppos by (intro frac_less) auto
    then have "x < 2 powi bp / 2 powi (bq - 1)" by (simp add: x)
    also have "\<dots> = 2 powi (bp - bq + 1)"
      by (simp add: power_int_diff power_int_add)
    finally show ?thesis .
  qed
  have lo: "2 powi (bp - bq - 1) \<le> x"
  proof -
    have "(2::rat) powi (bp - bq - 1) = 2 powi (bp - 1) / 2 powi bq"
      by (simp add: power_int_diff)
    also have "\<dots> \<le> of_int p / of_int q"
      using P'(1) Q'(2) ppos qpos by (intro frac_le) auto
    finally show ?thesis by (simp add: x)
  qed
  have il: "ilog2 x = (if 2 powi (bp - bq) \<le> x then bp - bq else bp - bq - 1)"
    by (simp add: ilog2_def pq bp_def bq_def Let_def)
  show "2 powi (ilog2 x) \<le> x" using lo by (simp add: il)
  show "x < 2 powi (ilog2 x + 1)" using up by (auto simp add: il not_le)
qed

lemma ilog2_unique:
  assumes "0 < x" "2 powi e \<le> x" "x < 2 powi (e + 1)"
  shows "ilog2 x = e"
proof -
  have "(2::rat) powi e < 2 powi (ilog2 x + 1)"
    using assms(2) ilog2_bounds(2) [OF assms(1)] by simp
  then have a: "e < ilog2 x + 1" by (rule pow2_less_imp)
  have "(2::rat) powi (ilog2 x) < 2 powi (e + 1)"
    using assms(3) ilog2_bounds(1) [OF assms(1)] by simp
  then have "ilog2 x < e + 1" by (rule pow2_less_imp)
  with a show ?thesis by simp
qed

text \<open>
  A positive rational in the binade of exponent \<open>e\<close>, away from the subnormal range and
  from overflow, rounds to a multiple of \<open>2 ^ (e - 52)\<close>.
\<close>

lemma fl_normal:
  assumes "0 < x" "2 powi e \<le> x" "x < 2 powi (e + 1)" "- 1022 \<le> e" "e \<le> 1022"
  shows "fl x = Fin (of_int (rne (x / 2 powi (e - 52))) * 2 powi (e - 52))"
proof -
  define u :: rat where "u = 2 powi (e - 52)"
  have upos: "0 < u" by (simp add: u_def)
  have il: "ilog2 x = e" using assms(1-3) by (rule ilog2_unique)
  have mx: "max (e - 52) (- 1074) = e - 52" using assms(4) by simp
  have "x / u < 2 powi (e + 1) / u"
    using assms(3) upos by (simp add: divide_strict_right_mono)
  also have "\<dots> = 2 powi 53"
    by (simp add: u_def flip: power_int_diff)
  finally have "x / u \<le> of_int (2 ^ 53)" by simp
  then have r1: "rne (x / u) \<le> 2 ^ 53" by (rule rne_le)
  have "of_int 0 \<le> x / u" using assms(1) upos by simp
  then have r0: "0 \<le> rne (x / u)" by (rule rne_ge)
  define y where "y = of_int (rne (x / u)) * u"
  have y0: "0 \<le> y" using r0 upos by (simp add: y_def)
  have r1': "(of_int (rne (x / u)) :: rat) \<le> of_int (2 ^ 53)"
    using r1 by (simp only: of_int_le_iff)
  have "y \<le> of_int (2 ^ 53) * u"
    unfolding y_def using r1' upos by (intro mult_right_mono) simp_all
  also have "\<dots> = 2 powi (53 + (e - 52))"
    using power_int_add [of "2::rat" 53 "e - 52"] by (simp add: u_def)
  also have "\<dots> = 2 powi (e + 1)" by (simp add: algebra_simps)
  also have "\<dots> \<le> 2 powi 1023" using assms(5) by (intro power_int_increasing) auto
  also have "\<dots> < 2 powi 1024" by (intro power_int_strict_increasing) auto
  finally have "y < 2 ^ 1024" by simp
  then have y1: "\<not> 2 ^ 1024 \<le> y" by simp
  have y2: "\<not> y \<le> - (2 ^ 1024)"
  proof
    assume "y \<le> - (2 ^ 1024)"
    moreover have "(0::rat) < 2 ^ 1024" by simp
    ultimately show False using y0 by linarith
  qed
  have ax: "\<bar>x\<bar> = x" and xne: "x \<noteq> 0" using assms(1) by simp_all
  show ?thesis
    unfolding fl_def Let_def ax il mx
    by (simp only: xne y1 [unfolded y_def u_def] y2 [unfolded y_def u_def] if_False)
qed

lemma fl_cert:
  assumes "0 < x" "2 powi e \<le> x" "x < 2 powi (e + 1)" "- 1022 \<le> e" "e \<le> 1022"
    and "\<bar>x / 2 powi (e - 52) - of_int k\<bar> < 1 / 2"
  shows "fl x = Fin (of_int k * 2 powi (e - 52))"
  using fl_normal [OF assms(1-5)] rne_near [OF assms(6)] by simp

text \<open>Integers below \<open>2 ^ 53\<close> are binary64 values.\<close>

lemma fl_int:
  assumes "0 \<le> n" "n < 2 ^ 53"
  shows "fl (of_int n) = Fin (of_int n)"
proof (cases "n = 0")
  case True
  then show ?thesis by (simp add: fl_def)
next
  case False
  with assms have npos: "0 < n" by simp
  define x :: rat where "x = of_int n"
  define e where "e = ilog2 x"
  have xpos: "0 < x" using npos by (simp add: x_def)
  have x1: "1 \<le> x" using npos by (simp add: x_def)
  have xlt: "x < 2 powi 53"
  proof -
    have "(of_int n :: rat) < of_int (2 ^ 53)" using assms(2) by (simp only: of_int_less_iff)
    then show ?thesis by (simp add: x_def)
  qed
  have eb: "2 powi e \<le> x" "x < 2 powi (e + 1)"
    using ilog2_bounds [OF xpos] by (simp_all add: e_def)
  have "(2::rat) powi 0 < 2 powi (e + 1)" using x1 eb(2) by simp
  then have "0 < e + 1" by (rule pow2_less_imp)
  then have e0: "0 \<le> e" by simp
  have "(2::rat) powi e < 2 powi 53" using eb(1) xlt by simp
  then have e52: "e < 53" by (rule pow2_less_imp)
  define k where "k = nat (52 - e)"
  have u: "(2::rat) powi (e - 52) = 1 / 2 ^ k"
  proof -
    have "(2::rat) powi (e - 52) = 2 powi (- int k)" using e52 by (simp add: k_def)
    then show ?thesis by (simp add: power_int_minus_divide)
  qed
  have "x / (1 / 2 ^ k) = of_int (n * 2 ^ k)" by (simp add: x_def)
  then have "rne (x / 2 powi (e - 52)) = n * 2 ^ k" by (simp only: u rne_of_int)
  then have "fl x = Fin (of_int (n * 2 ^ k) * (1 / 2 ^ k))"
    using fl_normal [OF xpos eb] e0 e52 by (simp add: u)
  then show ?thesis by (simp add: x_def)
qed

text \<open>The two constants of the calculator: the literal \<open>0.029\<close> and \<open>1 - 0.029\<close>.\<close>

lemma lit_0_029_value: "lit_0_029 = Fin (8358680908399641 / 288230376151711744)"
  unfolding lit_0_029_def
  using fl_cert [of "29 / 1000" "- 6" 8358680908399641] by simp

lemma one_minus_0_029: "js_sub (Fin 1) lit_0_029 = Fin (8745990476353503 / 9007199254740992)"
  unfolding lit_0_029_value js_sub_def
  using fl_cert [of "1 - 8358680908399641 / 288230376151711744" "- 1" 8745990476353503] by simp

text \<open>
  The division of the calculator: for a numerator between 30 and \<open>17 * 10 ^ 12 + 30\<close> the
  rounded quotient has the ceiling of the exact quotient by \<open>971 / 1000\<close>.
\<close>

lemma gross_div:
  fixes X :: int
  assumes X30: "30 \<le> X" and Xle: "X \<le> 17000000000030"
  shows "Math_ceil (fl (of_int X / (8745990476353503 / 9007199254740992)))
           = Fin (of_int \<lceil>of_int X * 1000 / (971::rat)\<rceil>)"
proof -
  define y :: rat where "y = of_int X / (8745990476353503 / 9007199254740992)"
  define e where "e = ilog2 y"
  define T where "T = \<lceil>of_int X * 1000 / (971::rat)\<rceil>"
  have "(of_int 30 :: rat) \<le> of_int X" "(of_int X :: rat) \<le> of_int 17000000000030"
    using X30 Xle by (simp_all only: of_int_le_iff)
  then have Xr: "(30::rat) \<le> of_int X" "(of_int X :: rat) \<le> 17000000000030"
    by simp_all
  have y_eq: "y * 8745990476353503 = of_int X * 9007199254740992"
    by (simp add: y_def)
  have y1: "1 \<le> y" using Xr y_eq by linarith
  then have ypos: "0 < y" by simp
  have ylt: "y < 2 powi 44" using Xr y_eq by simp
  have eb: "2 powi e \<le> y" "y < 2 powi (e + 1)"
    using ilog2_bounds [OF ypos] by (simp_all add: e_def)
  have "(2::rat) powi 0 < 2 powi (e + 1)" using y1 eb(2) by simp
  then have "0 < e + 1" by (rule pow2_less_imp)
  then have e0: "0 \<le> e" by simp
  have "(2::rat) powi e < 2 powi 44" using eb(1) ylt by simp
  then have e44: "e < 44" by (rule pow2_less_imp)
  define k where "k = nat (52 - e)"
  define m :: rat where "m = 2 ^ k"
  have k9: "9 \<le> k" using e44 by (simp add: k_def)
  have "(2::rat) ^ 9 \<le> 2 ^ k" using k9 by (intro power_increasing) auto
  then have m512: "512 \<le> m" by (simp add: m_def)
  then have mpos: "0 < m" by simp
  have m_int: "m = of_int (2 ^ k)" by (simp add: m_def)
  have u: "(2::rat) powi (e - 52) = 1 / m"
  proof -
    have "(2::rat) powi (e - 52) = 2 powi (- int k)" using e44 by (simp add: k_def)
    then show ?thesis by (simp add: power_int_minus_divide m_def)
  qed
  have flv: "fl y = Fin (of_int (rne (y * m)) / m)"
    using fl_normal [OF ypos eb] e0 e44 by (simp add: u)
  have ym: "y * m < 2 powi 53"
  proof -
    have "y * m < 2 powi (e + 1) * m" using eb(2) mpos by (simp add: mult_strict_right_mono)
    also have "\<dots> = 2 powi (e + 1) * 2 powi (int k)" by (simp add: m_def)
    also have "\<dots> = 2 powi (e + 1 + int k)" by (rule power_int_add [symmetric]) simp
    also have "e + 1 + int k = 53" using e44 by (simp add: k_def)
    finally show ?thesis .
  qed
  have Tc: "of_int T - 1 < (of_int X * 1000 / 971 :: rat)"
    "(of_int X * 1000 / 971 :: rat) \<le> of_int T"
    using ceiling_correct [of "of_int X * 1000 / (971::rat)"] by (simp_all add: T_def)
  have "(of_int ((T - 1) * 971) :: rat) < of_int (X * 1000)" using Tc(1) by simp
  then have "(T - 1) * 971 < X * 1000" by (simp only: of_int_less_iff)
  then have i1: "(T - 1) * 971 + 1 \<le> X * 1000" by simp
  have "(of_int (X * 1000) :: rat) \<le> of_int (T * 971)" using Tc(2) by simp
  then have i2: "X * 1000 \<le> T * 971" by (simp only: of_int_le_iff)
  have i1r: "(of_int T - 1) * 971 + 1 \<le> (of_int X * 1000 :: rat)"
  proof -
    have "(of_int ((T - 1) * 971 + 1) :: rat) \<le> of_int (X * 1000)"
      using i1 by (simp only: of_int_le_iff)
    then show ?thesis by simp
  qed
  have lo: "of_int (T - 1) + 1 / 971 \<le> y" using i1r y_eq Xr by simp
  have rlo: "(T - 1) * 2 ^ k + 1 \<le> rne (y * m)"
  proof -
    have "(of_int (T - 1) + 1 / 971) * m \<le> y * m"
      using lo mpos by (intro mult_right_mono) simp_all
    moreover have "(of_int (T - 1) + 1 / 971) * m = of_int ((T - 1) * 2 ^ k) + m / 971"
      by (simp add: m_int algebra_simps)
    moreover have "1 / 2 < m / 971" using m512 by simp
    ultimately have "of_int ((T - 1) * 2 ^ k) + 1 / 2 < y * m" by linarith
    then show ?thesis by (rule rne_gt_half)
  qed
  have rhi: "rne (y * m) \<le> T * 2 ^ k"
  proof (cases "X * 1000 = T * 971")
    case True
    then have "(of_int (X * 1000) :: rat) = of_int (T * 971)" by simp
    then have Xt: "(of_int X :: rat) * 1000 = of_int T * 971" by simp
    have yT: "y * 8745990476353503000 = of_int T * 8745990476353503232"
      using y_eq Xt by linarith
    have T0: "(0::rat) \<le> of_int T" using Xt Xr by linarith
    have "of_int T \<le> y" using yT T0 by linarith
    then have a: "of_int (T * 2 ^ k) \<le> y * m"
      using mpos by (simp add: m_int mult_right_mono)
    have ym': "y * m < 9007199254740992" using ym by simp
    have b: "y * m * 232 / 8745990476353503232 < 1 / 2" using ym' by linarith
    have c: "y * m - of_int T * m = y * m * 232 / 8745990476353503232"
    proof -
      have "of_int T = y * 8745990476353503000 / 8745990476353503232" using yT by simp
      then show ?thesis by (simp add: field_simps)
    qed
    have "y * m < of_int T * m + 1 / 2" using b c by linarith
    then have "y * m < of_int (T * 2 ^ k) + 1 / 2" by (simp add: m_int)
    with a have "rne (y * m) = T * 2 ^ k" by (rule rne_lt_half)
    then show ?thesis by simp
  next
    case False
    with i2 have "X * 1000 + 1 \<le> T * 971" by simp
    then have "(of_int (X * 1000 + 1) :: rat) \<le> of_int (T * 971)" by (simp only: of_int_le_iff)
    then have "(of_int X :: rat) * 1000 + 1 \<le> of_int T * 971" by simp
    then have "y \<le> of_int T" using y_eq Xr by linarith
    then have "y * m \<le> of_int T * m" using mpos by (intro mult_right_mono) simp_all
    then have "y * m \<le> of_int (T * 2 ^ k)" by (simp add: m_int)
    then show ?thesis by (rule rne_le)
  qed
  have "of_int T - 1 < (of_int (rne (y * m)) / m :: rat)"
  proof -
    have "(of_int ((T - 1) * 2 ^ k) :: rat) < of_int (rne (y * m))"
      using rlo by (simp only: of_int_less_iff)
    then have "(of_int T - 1) * m < of_int (rne (y * m))" by (simp add: m_int)
    then show ?thesis using mpos by (simp add: pos_less_divide_eq)
  qed
  moreover have "(of_int (rne (y * m)) / m :: rat) \<le> of_int T"
  proof -
    have "(of_int (rne (y * m)) :: rat) \<le> of_int (T * 2 ^ k)"
      using rhi by (simp only: of_int_le_iff)
    then have "of_int (rne (y * m)) \<le> of_int T * m" by (simp add: m_int)
    then show ?thesis using mpos by (simp add: pos_divide_le_eq)
  qed
  ultimately have "\<lceil>of_int (rne (y * m)) / m\<rceil> = T" by (rule ceiling_unique)
  then have "Math_ceil (fl y) = Fin (of_int T)" by (simp add: flv)
  then show ?thesis unfolding y_def T_def .
qed

text \<open>The calculator with fees covered, on an integer amount up to \<open>17 * 10 ^ 12\<close>.\<close>

lemma gross_covered:
  assumes "n \<le> 17000000000000"
  shows "computeGrossCents E (JNum (Fin (of_nat n))) (JBool True)
           = Inr (Fin (of_int \<lceil>(of_nat n + 30) * 1000 / (971::rat)\<rceil>))"
proof -
  have a: "fl (of_int (int n + 30)) = Fin (of_int (int n + 30))"
    using assms by (intro fl_int) simp_all
  have b: "js_add (Fin (of_nat n)) (Fin 30) = Fin (of_int (int n + 30))"
    using a by simp
  have c: "js_div (Fin (of_int (int n + 30))) (Fin (8745990476353503 / 9007199254740992))
             = fl (of_int (int n + 30) / (8745990476353503 / 9007199254740992))"
    by simp
  have "Math_ceil (fl (of_int (int n + 30) / (8745990476353503 / 9007199254740992)))
          = Fin (of_int \<lceil>of_int (int n + 30) * 1000 / (971::rat)\<rceil>)"
    using assms by (intro gross_div) simp_all
  then show ?thesis
    unfolding computeGrossCents_def
    by (simp only: truthy.simps ToNumber.simps sum.case b one_minus_0_029 c
        not_True_eq_False if_False) simp
qed

lemma net_covers_iff: "net_covers g b \<longleftrightarrow> \<lceil>(of_int b + 30) * 1000 / (971::rat)\<rceil> \<le> g"
  by (simp add: net_covers_def ceiling_le_iff field_simps)


section \<open>Amount calculator: the claims\<close>

text \<open>
  C1. Without fee coverage the calculator returns a non-negative integer amount unchanged;
  with fee coverage it returns 1061 for 1000 and 31 for 0.
\<close>

theorem computeGrossCents_examples:
  "computeGrossCents E (JNum (Fin (of_nat n))) (JBool False) = Inr (Fin (of_nat n))
   \<and> computeGrossCents E (JNum (Fin 1000)) (JBool True) = Inr (Fin 1061)
   \<and> computeGrossCents E (JNum (Fin 0)) (JBool True) = Inr (Fin 31)"
proof -
  have "computeGrossCents E (JNum (Fin (of_nat n))) (JBool False) = Inr (Fin (of_nat n))"
    by (simp add: computeGrossCents_def)
  moreover have "computeGrossCents E (JNum (Fin 1000)) (JBool True) = Inr (Fin 1061)"
  proof -
    have "\<lceil>1030000 / (971::rat)\<rceil> = 1061" by (rule ceiling_unique) simp_all
    then show ?thesis using gross_covered [of 1000 E] by simp
  qed
  moreover have "computeGrossCents E (JNum (Fin 0)) (JBool True) = Inr (Fin 31)"
  proof -
    have "\<lceil>30000 / (971::rat)\<rceil> = 31" by (rule ceiling_unique) simp_all
    then show ?thesis using gross_covered [of 0 E] by simp
  qed
  ultimately show ?thesis by simp
qed

text \<open>
  C6, as the specification states it, for every non-negative integer amount: the
  calculator with fee coverage returns the least gross amount that covers the base
  amount. In binary64 arithmetic this fails for very large amounts: at 17082012649732 the
  exact quotient is less than \<open>2 ^ -9\<close> above the integer 17592186045069, the rounded
  quotient is that integer, and the amount returned does not cover the base amount.
\<close>

theorem gross_beyond_bound:
  "computeGrossCents ecma_stub (JNum (Fin 17082012649732)) (JBool True)
     = Inr (Fin 17592186045069)
   \<and> \<not> net_covers 17592186045069 17082012649732"
proof -
  have a: "js_add (Fin 17082012649732) (Fin 30) = Fin 17082012649762"
    using fl_int [of 17082012649762] by simp
  have b: "js_div (Fin 17082012649762) (Fin (8745990476353503 / 9007199254740992))
             = Fin 17592186045069"
    using fl_cert [of "17082012649762 / (8745990476353503 / 9007199254740992)" 44
        4503599627537664]
    by simp
  have "computeGrossCents ecma_stub (JNum (Fin 17082012649732)) (JBool True)
          = Inr (Math_ceil (Fin 17592186045069))"
    unfolding computeGrossCents_def
    by (simp only: truthy.simps ToNumber.simps sum.case not_True_eq_False if_False a
        one_minus_0_029 b)
  moreover have "\<lceil>17592186045069 :: rat\<rceil> = 17592186045069"
    by (rule ceiling_unique) simp_all
  moreover have "\<not> net_covers 17592186045069 17082012649732"
    by (simp add: net_covers_def)
  ultimately show ?thesis by simp
qed

text \<open>
  C6, amended: for every integer amount from 0 to \<open>17 * 10 ^ 12\<close>, the calculator with fee
  coverage returns \<open>\<lceil>(b + 30) / (1 - 0.029)\<rceil>\<close> computed exactly, and this is the least
  integer \<open>g\<close> such that \<open>g\<close> less 2.9% of \<open>g\<close> and less 30 is at least the amount.
\<close>

theorem gross_is_least_cover:
  "n \<le> 17000000000000 \<Longrightarrow>
     computeGrossCents E (JNum (Fin (of_nat n))) (JBool True)
       = Inr (Fin (of_int \<lceil>(of_nat n + 30) / (1 - 29 / 1000 :: rat)\<rceil>))
     \<and> net_covers \<lceil>(of_nat n + 30) / (1 - 29 / 1000 :: rat)\<rceil> (int n)
     \<and> (\<forall>g. net_covers g (int n) \<longrightarrow> \<lceil>(of_nat n + 30) / (1 - 29 / 1000 :: rat)\<rceil> \<le> g)"
proof -
  assume a: "n \<le> 17000000000000"
  have e: "(of_nat n + 30) / (1 - 29 / 1000 :: rat) = (of_nat n + 30) * 1000 / 971"
    by simp
  show ?thesis
    unfolding e using gross_covered [OF a, of E] by (simp add: net_covers_iff)
qed

theorem gross_is_least_cover_witness:
  "(1000::nat) \<le> 17000000000000
   \<and> computeGrossCents ecma_stub (JNum (Fin 1000)) (JBool True) = Inr (Fin 1061)
   \<and> net_covers 1061 1000
   \<and> \<not> net_covers 1060 1000"
proof -
  have "\<lceil>1030000 / (971::rat)\<rceil> = 1061" by (rule ceiling_unique) simp_all
  then show ?thesis
    using gross_is_least_cover [of 1000 ecma_stub] by (simp add: net_covers_def)
qed


section \<open>Notification composer: when a message is composed\<close>

lemma dollars_isl: "isl (dollars E amount) \<longleftrightarrow> \<not> showable amount"
  using ToNumber_isl [of E amount] by (cases "ToNumber E amount") (simp_all add: dollars_def)

lemma ToString_or_isl: "isl (ToString E (js_or v (JStr d))) \<longleftrightarrow> \<not> showable v"
  using falsy_showable [of v] by (auto simp: js_or_def ToString_isl)

lemma dedication_line_isl:
  "isl (dedication_line E md) \<longleftrightarrow> \<not> showable (js_get md ''dedication'')"
  using falsy_showable [of "js_get md ''dedication''"]
  by (auto simp: dedication_line_def concatE_isl ToString_isl)


lemma donor_html_isl:
  "isl (donor_html E md amount)
     \<longleftrightarrow> \<not> (showable (js_get md ''donor_name'') \<and> showable amount
            \<and> showable (js_get md ''dedication''))"
  by (simp add: donor_html_def concatE_isl ToString_or_isl dollars_isl dedication_line_isl)

lemma donor_html_invoice_isl:
  "isl (donor_html_invoice E md amount)
     \<longleftrightarrow> \<not> (showable (js_get md ''donor_name'') \<and> showable amount
            \<and> showable (js_get md ''dedication''))"
  by (simp add: donor_html_invoice_def concatE_isl ToString_or_isl dollars_isl
      dedication_line_isl)



lemma compose_isl: "isl (compose r s h b) \<longleftrightarrow> isl s \<or> isl h"
  by (simp add: compose_def split: sum.splits)

lemma compose_Inr:
  "compose r (Inr s) h b = Inr m \<Longrightarrow> msg_to m = r \<and> msg_subject m = s \<and> msg_from m = sender"
  by (auto simp: compose_def split: sum.splits)

section \<open>Webhook dispatcher: traces\<close>

lemma sends_Nil: "sends [] = []"
  by (simp add: sends_def map_filter_simps)

lemma sends_append: "sends (a @ b) = sends a @ sends b"
  by (simp add: sends_def map_filter_def)

lemma lookups_Nil: "lookups [] = []"
  by (simp add: lookups_def map_filter_simps)

lemma lookups_append: "lookups (a @ b) = lookups a @ lookups b"
  by (simp add: lookups_def map_filter_def)



lemma sends_try_send: "sends (try_send w site m) = [m]"
  by (simp add: sends_def try_send_def map_filter_simps split: option.splits)

lemma lookups_try_send: "lookups (try_send w site m) = []"
  by (simp add: lookups_def try_send_def map_filter_simps split: option.splits)


lemma sends_handler_error: "sends [Log_handler_error e] = []"
  by (simp add: sends_def map_filter_simps)


lemma sends_received: "sends (Log_webhook_received # tr) = sends tr"
  by (simp add: sends_def map_filter_simps)






subsection \<open>Stretches of the handler\<close>

lemma fst_then_flow: "fst (then_flow a b) = (if fst a = Continue then fst b else fst a)"
  by (cases a; cases b) (simp add: then_flow_def split: flow.splits)

lemma snd_then_flow:
  "snd (then_flow a b) = (if fst a = Continue then snd a @ snd b else snd a)"
  by (cases a; cases b) (simp add: then_flow_def split: flow.splits)


lemma snd_send_composed:
  "snd (send_composed w site c) = (case c of Inl e \<Rightarrow> [] | Inr m \<Rightarrow> try_send w site m)"
  by (simp add: send_composed_def split: sum.splits)







lemma fst_answer:
  "fst (answer r)
     = (case fst r of
          Continue \<Rightarrow> \<lparr>status = 200, body = No_body\<rparr>
        | Return res \<Rightarrow> res
        | Throw e \<Rightarrow> \<lparr>status = 500, body = No_body\<rparr>)"
  by (cases r) (simp add: answer_def split: flow.splits)

lemma snd_answer:
  "snd (answer r)
     = (case fst r of Throw e \<Rightarrow> snd r @ [Log_handler_error e] | _ \<Rightarrow> snd r)"
  by (cases r) (simp add: answer_def split: flow.splits)

lemma sends_answer: "sends (snd (answer r)) = sends (snd r)"
  by (simp add: snd_answer sends_append sends_handler_error split: flow.splits)





lemma webhook_verified:
  "constructEvent w (raw_body req) (stripe_signature req) (STRIPE_WEBHOOK_SECRET cfg) = Inr ev \<Longrightarrow>
     webhook E cfg w req
       = (fst (handle_event E cfg w ev), Log_webhook_received # snd (handle_event E cfg w ev))"
  by (simp add: webhook_def split: prod.splits)

lemma sample_verified:
  "constructEvent failing_collaborators (raw_body (sample_request raw))
       (stripe_signature (sample_request raw)) (STRIPE_WEBHOOK_SECRET cfg)
     = Inr (sample_event raw)"
  by (simp add: failing_collaborators_def sample_constructEvent_def sample_request_def)


lemma then_flow_Continue_left: "then_flow (Continue, []) b = b"
  by (cases b) (simp add: then_flow_def)

lemma then_flow_Continue_right: "then_flow a (Continue, []) = a"
  by (cases a) (simp add: then_flow_def split: flow.splits)

lemma send_composed_Continue: "fst (send_composed w site c) = Continue \<longleftrightarrow> \<not> isl c"
  by (cases c) (simp_all add: send_composed_def)









lemma sends_then_flow:
  "sends (snd (then_flow a b))
     = (if fst a = Continue then sends (snd a) @ sends (snd b) else sends (snd a))"
  by (simp add: snd_then_flow sends_append)

subsection \<open>The three blocks\<close>









lemma sends_expand_invoice: "sends (snd (snd (expand_invoice w invoice))) = []"
  by (simp add: expand_invoice_def Let_def sends_def map_filter_simps split: sum.splits)






lemma pi_skipped:
  "truthy (obj_get intent ''invoice'') \<Longrightarrow>
     payment_intent_succeeded E cfg w intent = (Return \<lparr>status = 200, body = No_body\<rparr>, [])"
  by (simp add: payment_intent_succeeded_def)



subsection \<open>The handler\<close>

lemma handle_event_checkout:
  "ev_type ev = ''checkout.session.completed'' \<Longrightarrow>
     handle_event E cfg w ev = answer (checkout_session_completed E cfg w (data_object ev))"
  by (simp add: handle_event_def then_flow_Continue_left then_flow_Continue_right)

lemma handle_event_pi:
  "ev_type ev = ''payment_intent.succeeded'' \<Longrightarrow>
     handle_event E cfg w ev = answer (payment_intent_succeeded E cfg w (data_object ev))"
  by (simp add: handle_event_def then_flow_Continue_left then_flow_Continue_right)

lemma handle_event_invoice:
  "ev_type ev = ''invoice.payment_succeeded'' \<Longrightarrow>
     handle_event E cfg w ev = answer (invoice_payment_succeeded E cfg w (data_object ev))"
  by (simp add: handle_event_def then_flow_Continue_left then_flow_Continue_right)






subsection \<open>The six messages\<close>


lemma showable_get_or:
  "showable (js_get (js_or v (JObj Map.empty)) k) \<longleftrightarrow> showable (js_get v k)"
  using falsy_showable [of v]
  by (cases v) (auto simp: js_or_def js_get_def obj_get_def split: jsnum.splits)

lemma checkout_donor_msg_isl:
  "isl (checkout_donor_msg E cfg donorEmail md amount frequency)
     \<longleftrightarrow> \<not> (showable (js_get md ''donor_name'') \<and> showable amount
            \<and> showable (js_get md ''dedication''))"
  by (simp add: checkout_donor_msg_def compose_isl donor_html_isl)

lemma pi_donor_msg_isl:
  "isl (pi_donor_msg E cfg donorEmail md amount)
     \<longleftrightarrow> \<not> (showable (js_get md ''donor_name'') \<and> showable amount
            \<and> showable (js_get md ''dedication''))"
  by (simp add: pi_donor_msg_def compose_isl donor_html_isl)

lemma invoice_donor_msg_isl:
  "isl (invoice_donor_msg E cfg donorEmail md amount)
     \<longleftrightarrow> \<not> (showable (js_get md ''donor_name'') \<and> showable amount
            \<and> showable (js_get md ''dedication''))"
  by (simp add: invoice_donor_msg_def compose_isl donor_html_invoice_isl)




text \<open>What composing a message throws is a TypeError.\<close>

lemma dollars_Inl: "dollars E amount = Inl e \<Longrightarrow> e = TypeError"
  by (auto simp: dollars_def split: sum.splits dest: ToNumber_Inl)

lemma dedication_line_Inl: "dedication_line E md = Inl e \<Longrightarrow> e = TypeError"
  by (auto simp: dedication_line_def split: if_splits dest!: concatE_Inl
      dest: ToString_Inl ToString_Inl [OF sym])

lemma notify_line_Inl: "notify_line E md = Inl e \<Longrightarrow> e = TypeError"
  by (auto simp: notify_line_def split: if_splits dest!: concatE_Inl
      dest: ToString_Inl ToString_Inl [OF sym])

lemma donor_html_Inl: "donor_html E md amount = Inl e \<Longrightarrow> e = TypeError"
  by (auto simp: donor_html_def dest!: concatE_Inl
      dest: ToString_Inl ToString_Inl [OF sym] dollars_Inl dollars_Inl [OF sym]
        dedication_line_Inl dedication_line_Inl [OF sym])

lemma donor_html_invoice_Inl: "donor_html_invoice E md amount = Inl e \<Longrightarrow> e = TypeError"
  by (auto simp: donor_html_invoice_def dest!: concatE_Inl
      dest: ToString_Inl ToString_Inl [OF sym] dollars_Inl dollars_Inl [OF sym]
        dedication_line_Inl dedication_line_Inl [OF sym])

lemma internal_html_Inl:
  "internal_html E md amount freq donorEmail = Inl e \<Longrightarrow>
   (\<And>e'. freq = Inl e' \<Longrightarrow> e' = TypeError) \<Longrightarrow> e = TypeError"
  by (auto simp: internal_html_def dest!: concatE_Inl
      dest: ToString_Inl ToString_Inl [OF sym] dollars_Inl dollars_Inl [OF sym]
        dedication_line_Inl dedication_line_Inl [OF sym]
        notify_line_Inl notify_line_Inl [OF sym])

lemma internal_subject_Inl:
  "concatE [Inr a, dollars E amount, Inr b,
            ToString E (js_or (js_get md ''donor_name'') (JStr ''Unknown''))] = Inl e \<Longrightarrow>
     e = TypeError"
  by (auto dest!: concatE_Inl
      dest: ToString_Inl ToString_Inl [OF sym] dollars_Inl dollars_Inl [OF sym])

lemma compose_Inl:
  "compose r s h b = Inl e \<Longrightarrow>
   (\<And>e'. s = Inl e' \<Longrightarrow> e' = TypeError) \<Longrightarrow>
   (\<And>e'. h = Inl e' \<Longrightarrow> e' = TypeError) \<Longrightarrow> e = TypeError"
  by (auto simp: compose_def split: sum.splits)


lemma checkout_internal_msg_Inl:
  "checkout_internal_msg E cfg l donorEmail md amount frequency = Inl e \<Longrightarrow> e = TypeError"
  unfolding checkout_internal_msg_def
  by (erule compose_Inl) (auto dest: internal_subject_Inl internal_html_Inl ToString_Inl)







section \<open>Webhook dispatcher: the claims\<close>

lemma sample_key: "env_truthy (SENDGRID_API_KEY sample_env)"
  by (simp add: sample_env_def env_truthy_def)


text \<open>
  C2. When the verification of the signature throws (the header is missing, malformed or
  does not match the raw body), the answer is 400 with the body \<^verbatim>\<open>Webhook Error: \<close>
  followed by the error's message, and the handler has done nothing but log: no message
  is handed to the transport and no subscription or customer is looked up.
\<close>

theorem webhook_rejects_unverified:
  "constructEvent w (raw_body req) (stripe_signature req) (STRIPE_WEBHOOK_SECRET cfg) = Inl msg \<Longrightarrow>
     webhook E cfg w req
       = (\<lparr>status = 400, body = Text_body (''Webhook Error: '' @ msg)\<rparr>,
          [Log_webhook_received, Log_signature_failed msg])
     \<and> sends (snd (webhook E cfg w req)) = []
     \<and> lookups (snd (webhook E cfg w req)) = []"
  by (simp add: webhook_def sends_def lookups_def map_filter_simps)

theorem webhook_rejects_unverified_witness:
  "constructEvent failing_collaborators
       (raw_body \<lparr>raw_body = ''checkout-monthly'', stripe_signature = None\<rparr>)
       (stripe_signature \<lparr>raw_body = ''checkout-monthly'', stripe_signature = None\<rparr>)
       (STRIPE_WEBHOOK_SECRET sample_env)
     = Inl ''No signatures found matching the expected signature for payload''
   \<and> webhook ecma_stub sample_env failing_collaborators
        \<lparr>raw_body = ''checkout-monthly'', stripe_signature = None\<rparr>
       = (\<lparr>status = 400,
           body = Text_body
             (''Webhook Error: ''
              @ ''No signatures found matching the expected signature for payload'')\<rparr>,
          [Log_webhook_received,
           Log_signature_failed
             ''No signatures found matching the expected signature for payload''])
   \<and> sends (snd (webhook ecma_stub sample_env failing_collaborators
        \<lparr>raw_body = ''checkout-monthly'', stripe_signature = None\<rparr>)) = []
   \<and> lookups (snd (webhook ecma_stub sample_env failing_collaborators
        \<lparr>raw_body = ''checkout-monthly'', stripe_signature = None\<rparr>)) = []"
proof -
  have h: "constructEvent failing_collaborators
       (raw_body \<lparr>raw_body = ''checkout-monthly'', stripe_signature = None\<rparr>)
       (stripe_signature \<lparr>raw_body = ''checkout-monthly'', stripe_signature = None\<rparr>)
       (STRIPE_WEBHOOK_SECRET sample_env)
     = Inl ''No signatures found matching the expected signature for payload''"
    by (simp add: failing_collaborators_def sample_constructEvent_def)
  from webhook_rejects_unverified [OF h, of ecma_stub] h show ?thesis by blast
qed

text \<open>
  C3. A verified \<^verbatim>\<open>payment_intent.succeeded\<close> event whose intent carries a non-empty
  invoice reference is answered with 200 and no message is sent.
\<close>

theorem payment_intent_with_invoice_is_skipped:
  "constructEvent w (raw_body req) (stripe_signature req) (STRIPE_WEBHOOK_SECRET cfg) = Inr ev \<Longrightarrow>
   ev_type ev = ''payment_intent.succeeded'' \<Longrightarrow>
   truthy (obj_get (data_object ev) ''invoice'') \<Longrightarrow>
     webhook E cfg w req = (\<lparr>status = 200, body = No_body\<rparr>, [Log_webhook_received])
     \<and> sends (snd (webhook E cfg w req)) = []"
  by (simp add: webhook_verified handle_event_pi pi_skipped answer_def sends_def
      map_filter_simps)

theorem payment_intent_with_invoice_is_skipped_witness:
  "constructEvent failing_collaborators (raw_body (sample_request ''pi-invoice''))
       (stripe_signature (sample_request ''pi-invoice'')) (STRIPE_WEBHOOK_SECRET sample_env)
     = Inr (sample_event ''pi-invoice'')
   \<and> ev_type (sample_event ''pi-invoice'') = ''payment_intent.succeeded''
   \<and> truthy (obj_get (data_object (sample_event ''pi-invoice'')) ''invoice'')
   \<and> webhook ecma_stub sample_env failing_collaborators (sample_request ''pi-invoice'')
       = (\<lparr>status = 200, body = No_body\<rparr>, [Log_webhook_received])
   \<and> sends (snd (webhook ecma_stub sample_env failing_collaborators
        (sample_request ''pi-invoice''))) = []"
proof -
  have h1: "constructEvent failing_collaborators (raw_body (sample_request ''pi-invoice''))
       (stripe_signature (sample_request ''pi-invoice'')) (STRIPE_WEBHOOK_SECRET sample_env)
     = Inr (sample_event ''pi-invoice'')"
    by (simp add: failing_collaborators_def sample_constructEvent_def sample_request_def)
  have h2: "ev_type (sample_event ''pi-invoice'') = ''payment_intent.succeeded''"
    by (simp add: sample_event_def)
  have h3: "truthy (obj_get (data_object (sample_event ''pi-invoice'')) ''invoice'')"
    by (simp add: sample_event_def obj_get_def)
  from payment_intent_with_invoice_is_skipped [OF h1 h2 h3, of ecma_stub] h1 h2 h3
  show ?thesis by blast
qed







subsection \<open>Invoices\<close>

















subsection \<open>Subjects\<close>

lemma donor_first:
  assumes "env_truthy (SENDGRID_API_KEY cfg)" and "truthy donorEmail"
  shows "c = Inr d \<Longrightarrow>
           take 1 (sends (snd (then_flow (when_donor cfg donorEmail (send_composed w site c)) b)))
             = [d]"
    and "c = Inl e \<Longrightarrow>
           then_flow (when_donor cfg donorEmail (send_composed w site c)) b = (Throw e, [])"
proof -
  show "c = Inr d \<Longrightarrow>
           take 1 (sends (snd (then_flow (when_donor cfg donorEmail (send_composed w site c)) b)))
             = [d]"
    using assms
    by (cases b)
       (simp add: when_donor_def send_composed_def then_flow_def sends_append sends_try_send)
  show "c = Inl e \<Longrightarrow>
           then_flow (when_donor cfg donorEmail (send_composed w site c)) b = (Throw e, [])"
    using assms by (simp add: when_donor_def send_composed_def then_flow_def)
qed

lemma is_str_monthly_default:
  "is_str (js_or v (JStr ''one_time'')) ''monthly'' \<longleftrightarrow> is_str v ''monthly''"
  by (cases v) (auto simp: js_or_def is_str_def split: jsnum.splits)

lemma checkout_donor_first:
  assumes k: "env_truthy (SENDGRID_API_KEY cfg)"
    and em: "truthy (obj_get session ''customer_email'')"
  shows "(if showable (obj_get session ''amount_total'')
             \<and> showable (js_get (obj_get session ''metadata'') ''donor_name'')
             \<and> showable (js_get (obj_get session ''metadata'') ''dedication'')
          then map msg_to (take 1 (sends (snd (answer
                 (checkout_session_completed E cfg w session)))))
                 = [obj_get session ''customer_email'']
               \<and> map msg_subject (take 1 (sends (snd (answer
                   (checkout_session_completed E cfg w session)))))
                 = [if is_str (js_get (js_or (obj_get session ''metadata'') (JObj Map.empty))
                                 ''frequency'') ''monthly''
                    then ''Thank you for your monthly donation!''
                    else ''Thank you for your one-time donation!'']
          else sends (snd (answer (checkout_session_completed E cfg w session))) = []
               \<and> fst (answer (checkout_session_completed E cfg w session))
                 = \<lparr>status = 500, body = No_body\<rparr>)"
proof -
  let ?md = "js_or (obj_get session ''metadata'') (JObj Map.empty)"
  let ?c = "checkout_donor_msg E cfg (obj_get session ''customer_email'') ?md
      (obj_get session ''amount_total'') (js_or (js_get ?md ''frequency'') (JStr ''one_time''))"
  show ?thesis
  proof (cases ?c)
    case (Inl e)
    then have "isl ?c" by simp
    then have n: "\<not> (showable (obj_get session ''amount_total'')
             \<and> showable (js_get (obj_get session ''metadata'') ''donor_name'')
             \<and> showable (js_get (obj_get session ''metadata'') ''dedication''))"
      by (auto simp: checkout_donor_msg_isl showable_get_or)
    have "checkout_session_completed E cfg w session = (Throw e, [])"
      by (simp add: checkout_session_completed_def Let_def donor_first(2) [OF k em Inl])
    with n show ?thesis by (simp add: answer_def sends_def map_filter_simps)
  next
    case (Inr d)
    then have "\<not> isl ?c" by simp
    then have y: "showable (obj_get session ''amount_total'')
             \<and> showable (js_get (obj_get session ''metadata'') ''donor_name'')
             \<and> showable (js_get (obj_get session ''metadata'') ''dedication'')"
      by (auto simp: checkout_donor_msg_isl showable_get_or)
    have "take 1 (sends (snd (checkout_session_completed E cfg w session))) = [d]"
      unfolding checkout_session_completed_def Let_def by (rule donor_first(1) [OF k em Inr])
    moreover from Inr have "msg_to d = obj_get session ''customer_email''
        \<and> msg_subject d = ''Thank you for your ''
             @ (if is_str (js_get ?md ''frequency'') ''monthly'' then ''monthly'' else ''one-time'')
             @ '' donation!''"
      by (auto simp: checkout_donor_msg_def is_str_monthly_default dest: compose_Inr)
    ultimately show ?thesis using y by (simp add: sends_answer)
  qed
qed

lemma pi_donor_first:
  assumes k: "env_truthy (SENDGRID_API_KEY cfg)"
    and ni: "\<not> truthy (obj_get intent ''invoice'')"
    and em: "truthy (obj_get intent ''receipt_email'')"
  shows "(if showable (obj_get intent ''amount'')
             \<and> showable (js_get (obj_get intent ''metadata'') ''donor_name'')
             \<and> showable (js_get (obj_get intent ''metadata'') ''dedication'')
          then map msg_to (take 1 (sends (snd (answer
                 (payment_intent_succeeded E cfg w intent)))))
                 = [obj_get intent ''receipt_email'']
               \<and> map msg_subject (take 1 (sends (snd (answer
                   (payment_intent_succeeded E cfg w intent)))))
                 = [''Thank you for your donation!'']
          else sends (snd (answer (payment_intent_succeeded E cfg w intent))) = []
               \<and> fst (answer (payment_intent_succeeded E cfg w intent))
                 = \<lparr>status = 500, body = No_body\<rparr>)"
proof -
  let ?md = "js_or (obj_get intent ''metadata'') (JObj Map.empty)"
  let ?em = "js_or (obj_get intent ''receipt_email'') JNull"
  let ?c = "pi_donor_msg E cfg ?em ?md (obj_get intent ''amount'')"
  have e: "?em = obj_get intent ''receipt_email''" using em by (simp add: js_or_def)
  have em': "truthy ?em" using em e by simp
  show ?thesis
  proof (cases ?c)
    case (Inl e)
    then have "isl ?c" by simp
    then have n: "\<not> (showable (obj_get intent ''amount'')
             \<and> showable (js_get (obj_get intent ''metadata'') ''donor_name'')
             \<and> showable (js_get (obj_get intent ''metadata'') ''dedication''))"
      by (auto simp: pi_donor_msg_isl showable_get_or)
    have "payment_intent_succeeded E cfg w intent = (Throw e, [])"
      using ni by (simp add: payment_intent_succeeded_def Let_def donor_first(2) [OF k em' Inl])
    with n show ?thesis by (simp add: answer_def sends_def map_filter_simps)
  next
    case (Inr d)
    then have "\<not> isl ?c" by simp
    then have y: "showable (obj_get intent ''amount'')
             \<and> showable (js_get (obj_get intent ''metadata'') ''donor_name'')
             \<and> showable (js_get (obj_get intent ''metadata'') ''dedication'')"
      by (auto simp: pi_donor_msg_isl showable_get_or)
    have "take 1 (sends (snd (payment_intent_succeeded E cfg w intent))) = [d]"
      unfolding payment_intent_succeeded_def Let_def if_not_P [OF ni]
      by (rule donor_first(1) [OF k em' Inr])
    moreover from Inr have "msg_to d = ?em \<and> msg_subject d = ''Thank you for your donation!''"
      by (auto simp: pi_donor_msg_def dest: compose_Inr)
    ultimately show ?thesis using y e by (simp add: sends_answer)
  qed
qed

lemma invoice_donor_first:
  assumes k: "env_truthy (SENDGRID_API_KEY cfg)"
    and em: "truthy (fst (expand_invoice w invoice))"
  shows "(if showable (obj_get invoice ''amount_paid'')
             \<and> showable (js_get (fst (snd (expand_invoice w invoice))) ''donor_name'')
             \<and> showable (js_get (fst (snd (expand_invoice w invoice))) ''dedication'')
          then map msg_to (take 1 (sends (snd (answer
                 (invoice_payment_succeeded E cfg w invoice)))))
                 = [fst (expand_invoice w invoice)]
               \<and> map msg_subject (take 1 (sends (snd (answer
                   (invoice_payment_succeeded E cfg w invoice)))))
                 = [''Thank you for your monthly donation!'']
          else sends (snd (answer (invoice_payment_succeeded E cfg w invoice))) = []
               \<and> fst (answer (invoice_payment_succeeded E cfg w invoice))
                 = \<lparr>status = 500, body = No_body\<rparr>)"
proof (cases "expand_invoice w invoice")
  case (fields donorEmail md tr)
  let ?c = "invoice_donor_msg E cfg donorEmail md (obj_get invoice ''amount_paid'')"
  from fields em have em': "truthy donorEmail" by simp
  from fields sends_expand_invoice [of w invoice] have tr: "sends tr = []" by simp
  show ?thesis
  proof (cases ?c)
    case (Inl e)
    then have "isl ?c" by simp
    then have n: "\<not> (showable (obj_get invoice ''amount_paid'')
             \<and> showable (js_get md ''donor_name'') \<and> showable (js_get md ''dedication''))"
      by (auto simp: invoice_donor_msg_isl)
    have "invoice_sends E cfg w (obj_get invoice ''amount_paid'') donorEmail md = (Throw e, [])"
      by (simp add: invoice_sends_def donor_first(2) [OF k em' Inl])
    then have "fst (invoice_payment_succeeded E cfg w invoice) = Throw e
        \<and> sends (snd (invoice_payment_succeeded E cfg w invoice)) = []"
      using fields tr
      by (simp add: invoice_payment_succeeded_def Let_def fst_then_flow sends_then_flow sends_Nil)
    with n fields show ?thesis by (simp add: fst_answer sends_answer)
  next
    case (Inr d)
    then have "\<not> isl ?c" by simp
    then have y: "showable (obj_get invoice ''amount_paid'')
             \<and> showable (js_get md ''donor_name'') \<and> showable (js_get md ''dedication'')"
      by (auto simp: invoice_donor_msg_isl)
    have "take 1 (sends (snd (invoice_sends E cfg w (obj_get invoice ''amount_paid'')
        donorEmail md))) = [d]"
      unfolding invoice_sends_def by (rule donor_first(1) [OF k em' Inr])
    then have "take 1 (sends (snd (invoice_payment_succeeded E cfg w invoice))) = [d]"
      using fields tr
      by (simp add: invoice_payment_succeeded_def Let_def sends_then_flow)
    moreover from Inr have "msg_to d = donorEmail
        \<and> msg_subject d = ''Thank you for your monthly donation!''"
      by (auto simp: invoice_donor_msg_def dest: compose_Inr)
    ultimately show ?thesis using y fields by (simp add: sends_answer)
  qed
qed

lemma webhook_sends:
  "constructEvent w (raw_body req) (stripe_signature req) (STRIPE_WEBHOOK_SECRET cfg) = Inr ev \<Longrightarrow>
     sends (snd (webhook E cfg w req)) = sends (snd (handle_event E cfg w ev))
     \<and> fst (webhook E cfg w req) = fst (handle_event E cfg w ev)"
  by (simp add: webhook_verified sends_received)

text \<open>
  C7, as the specification states it, on every handling path: the donor subject of a
  one-time donation differs from that of a monthly donation. On the
  \<^verbatim>\<open>payment_intent.succeeded\<close> path it does not: an intent whose metadata says
  \<^verbatim>\<open>monthly\<close> and one whose metadata says \<^verbatim>\<open>one_time\<close> get the same subject.
\<close>

theorem pi_subject_ignores_frequency:
  "js_get (js_or (obj_get (data_object (sample_event ''pi-monthly'')) ''metadata'') (JObj Map.empty))
       ''frequency'' = JStr ''monthly''
   \<and> js_get (js_or (obj_get (data_object (sample_event ''pi-once'')) ''metadata'') (JObj Map.empty))
       ''frequency'' = JStr ''one_time''
   \<and> map msg_subject (take 1 (sends (snd (webhook ecma_stub sample_env failing_collaborators
         (sample_request ''pi-monthly'')))))
       = [''Thank you for your donation!'']
   \<and> map msg_subject (take 1 (sends (snd (webhook ecma_stub sample_env failing_collaborators
         (sample_request ''pi-once'')))))
       = [''Thank you for your donation!'']"
proof -
  have t1: "ev_type (sample_event ''pi-monthly'') = ''payment_intent.succeeded''"
    and t2: "ev_type (sample_event ''pi-once'') = ''payment_intent.succeeded''"
    by (simp_all add: sample_event_def)
  have "map msg_subject (take 1 (sends (snd (webhook ecma_stub sample_env failing_collaborators
         (sample_request ''pi-monthly'')))))
       = [''Thank you for your donation!'']"
    using pi_donor_first [OF sample_key, where intent = "data_object (sample_event ''pi-monthly'')"
        and w = failing_collaborators and E = ecma_stub]
    by (simp add: webhook_sends [OF sample_verified] handle_event_pi [OF t1])
       (simp add: sample_event_def obj_get_def js_get_def)
  moreover have "map msg_subject (take 1 (sends (snd (webhook ecma_stub sample_env
         failing_collaborators (sample_request ''pi-once'')))))
       = [''Thank you for your donation!'']"
    using pi_donor_first [OF sample_key, where intent = "data_object (sample_event ''pi-once'')"
        and w = failing_collaborators and E = ecma_stub]
    by (simp add: webhook_sends [OF sample_verified] handle_event_pi [OF t2])
       (simp add: sample_event_def obj_get_def js_get_def)
  ultimately show ?thesis
    by (simp add: sample_event_def obj_get_def js_or_def js_get_def)
qed

text \<open>
  C7, amended: the donor message, when the handler can compose it, is the first message
  of a delivery. On the \<^verbatim>\<open>checkout.session.completed\<close> path its subject says
  \<^verbatim>\<open>monthly\<close> when \<^verbatim>\<open>metadata.frequency\<close> is \<^verbatim>\<open>'monthly'\<close> and
  \<^verbatim>\<open>one-time\<close> otherwise; on the \<^verbatim>\<open>payment_intent.succeeded\<close> path it is always
  \<^verbatim>\<open>Thank you for your donation!\<close>; on the \<^verbatim>\<open>invoice.payment_succeeded\<close> path it
  is always \<^verbatim>\<open>Thank you for your monthly donation!\<close>. The handler cannot compose it
  when the amount, the donor's name or the dedication is a value that cannot be printed;
  then nothing is sent and the answer is 500.
\<close>

theorem donor_subject_by_path:
  "constructEvent w (raw_body req) (stripe_signature req) (STRIPE_WEBHOOK_SECRET cfg) = Inr ev \<Longrightarrow>
   env_truthy (SENDGRID_API_KEY cfg) \<Longrightarrow>
     (ev_type ev = ''checkout.session.completed'' \<longrightarrow>
      truthy (obj_get (data_object ev) ''customer_email'') \<longrightarrow>
        (if showable (obj_get (data_object ev) ''amount_total'')
            \<and> showable (js_get (obj_get (data_object ev) ''metadata'') ''donor_name'')
            \<and> showable (js_get (obj_get (data_object ev) ''metadata'') ''dedication'')
         then map msg_to (take 1 (sends (snd (webhook E cfg w req))))
                = [obj_get (data_object ev) ''customer_email'']
              \<and> map msg_subject (take 1 (sends (snd (webhook E cfg w req))))
                = [if is_str (js_get (js_or (obj_get (data_object ev) ''metadata'')
                                        (JObj Map.empty)) ''frequency'') ''monthly''
                   then ''Thank you for your monthly donation!''
                   else ''Thank you for your one-time donation!'']
         else sends (snd (webhook E cfg w req)) = []
              \<and> fst (webhook E cfg w req) = \<lparr>status = 500, body = No_body\<rparr>))
     \<and> (ev_type ev = ''payment_intent.succeeded'' \<longrightarrow>
        \<not> truthy (obj_get (data_object ev) ''invoice'') \<longrightarrow>
        truthy (obj_get (data_object ev) ''receipt_email'') \<longrightarrow>
          (if showable (obj_get (data_object ev) ''amount'')
              \<and> showable (js_get (obj_get (data_object ev) ''metadata'') ''donor_name'')
              \<and> showable (js_get (obj_get (data_object ev) ''metadata'') ''dedication'')
           then map msg_to (take 1 (sends (snd (webhook E cfg w req))))
                  = [obj_get (data_object ev) ''receipt_email'']
                \<and> map msg_subject (take 1 (sends (snd (webhook E cfg w req))))
                  = [''Thank you for your donation!'']
           else sends (snd (webhook E cfg w req)) = []
                \<and> fst (webhook E cfg w req) = \<lparr>status = 500, body = No_body\<rparr>))
     \<and> (ev_type ev = ''invoice.payment_succeeded'' \<longrightarrow>
        truthy (fst (expand_invoice w (data_object ev))) \<longrightarrow>
          (if showable (obj_get (data_object ev) ''amount_paid'')
              \<and> showable (js_get (fst (snd (expand_invoice w (data_object ev)))) ''donor_name'')
              \<and> showable (js_get (fst (snd (expand_invoice w (data_object ev)))) ''dedication'')
           then map msg_to (take 1 (sends (snd (webhook E cfg w req))))
                  = [fst (expand_invoice w (data_object ev))]
                \<and> map msg_subject (take 1 (sends (snd (webhook E cfg w req))))
                  = [''Thank you for your monthly donation!'']
           else sends (snd (webhook E cfg w req)) = []
                \<and> fst (webhook E cfg w req) = \<lparr>status = 500, body = No_body\<rparr>))"
proof -
  assume v: "constructEvent w (raw_body req) (stripe_signature req) (STRIPE_WEBHOOK_SECRET cfg) = Inr ev"
    and k: "env_truthy (SENDGRID_API_KEY cfg)"
  have s: "sends (snd (webhook E cfg w req)) = sends (snd (handle_event E cfg w ev))"
    "fst (webhook E cfg w req) = fst (handle_event E cfg w ev)"
    using webhook_sends [OF v, of E] by simp_all
  show ?thesis
  proof (intro conjI impI)
    assume t: "ev_type ev = ''checkout.session.completed''"
      and em: "truthy (obj_get (data_object ev) ''customer_email'')"
    show "if showable (obj_get (data_object ev) ''amount_total'')
            \<and> showable (js_get (obj_get (data_object ev) ''metadata'') ''donor_name'')
            \<and> showable (js_get (obj_get (data_object ev) ''metadata'') ''dedication'')
         then map msg_to (take 1 (sends (snd (webhook E cfg w req))))
                = [obj_get (data_object ev) ''customer_email'']
              \<and> map msg_subject (take 1 (sends (snd (webhook E cfg w req))))
                = [if is_str (js_get (js_or (obj_get (data_object ev) ''metadata'')
                                        (JObj Map.empty)) ''frequency'') ''monthly''
                   then ''Thank you for your monthly donation!''
                   else ''Thank you for your one-time donation!'']
         else sends (snd (webhook E cfg w req)) = []
              \<and> fst (webhook E cfg w req) = \<lparr>status = 500, body = No_body\<rparr>"
      unfolding s handle_event_checkout [OF t]
      by (rule checkout_donor_first [OF k em])
  next
    assume t: "ev_type ev = ''payment_intent.succeeded''"
      and ni: "\<not> truthy (obj_get (data_object ev) ''invoice'')"
      and em: "truthy (obj_get (data_object ev) ''receipt_email'')"
    show "if showable (obj_get (data_object ev) ''amount'')
              \<and> showable (js_get (obj_get (data_object ev) ''metadata'') ''donor_name'')
              \<and> showable (js_get (obj_get (data_object ev) ''metadata'') ''dedication'')
           then map msg_to (take 1 (sends (snd (webhook E cfg w req))))
                  = [obj_get (data_object ev) ''receipt_email'']
                \<and> map msg_subject (take 1 (sends (snd (webhook E cfg w req))))
                  = [''Thank you for your donation!'']
           else sends (snd (webhook E cfg w req)) = []
                \<and> fst (webhook E cfg w req) = \<lparr>status = 500, body = No_body\<rparr>"
      unfolding s handle_event_pi [OF t]
      by (rule pi_donor_first [OF k ni em])
  next
    assume t: "ev_type ev = ''invoice.payment_succeeded''"
      and em: "truthy (fst (expand_invoice w (data_object ev)))"
    show "if showable (obj_get (data_object ev) ''amount_paid'')
              \<and> showable (js_get (fst (snd (expand_invoice w (data_object ev)))) ''donor_name'')
              \<and> showable (js_get (fst (snd (expand_invoice w (data_object ev)))) ''dedication'')
           then map msg_to (take 1 (sends (snd (webhook E cfg w req))))
                  = [fst (expand_invoice w (data_object ev))]
                \<and> map msg_subject (take 1 (sends (snd (webhook E cfg w req))))
                  = [''Thank you for your monthly donation!'']
           else sends (snd (webhook E cfg w req)) = []
                \<and> fst (webhook E cfg w req) = \<lparr>status = 500, body = No_body\<rparr>"
      unfolding s handle_event_invoice [OF t]
      by (rule invoice_donor_first [OF k em])
  qed
qed


theorem donor_subject_by_path_witness:
  "constructEvent failing_collaborators (raw_body (sample_request ''checkout-monthly''))
       (stripe_signature (sample_request ''checkout-monthly'')) (STRIPE_WEBHOOK_SECRET sample_env)
     = Inr (sample_event ''checkout-monthly'')
   \<and> constructEvent failing_collaborators (raw_body (sample_request ''checkout-once''))
       (stripe_signature (sample_request ''checkout-once'')) (STRIPE_WEBHOOK_SECRET sample_env)
     = Inr (sample_event ''checkout-once'')
   \<and> constructEvent failing_collaborators (raw_body (sample_request ''pi-once''))
       (stripe_signature (sample_request ''pi-once'')) (STRIPE_WEBHOOK_SECRET sample_env)
     = Inr (sample_event ''pi-once'')
   \<and> constructEvent failing_collaborators (raw_body (sample_request ''pi-odd-name''))
       (stripe_signature (sample_request ''pi-odd-name'')) (STRIPE_WEBHOOK_SECRET sample_env)
     = Inr (sample_event ''pi-odd-name'')
   \<and> constructEvent failing_collaborators (raw_body (sample_request ''invoice-plain''))
       (stripe_signature (sample_request ''invoice-plain'')) (STRIPE_WEBHOOK_SECRET sample_env)
     = Inr (sample_event ''invoice-plain'')
   \<and> env_truthy (SENDGRID_API_KEY sample_env)
   \<and> map msg_subject (take 1 (sends (snd (webhook ecma_stub sample_env failing_collaborators
        (sample_request ''checkout-monthly'')))))
       = [''Thank you for your monthly donation!'']
   \<and> map msg_subject (take 1 (sends (snd (webhook ecma_stub sample_env failing_collaborators
        (sample_request ''checkout-once'')))))
       = [''Thank you for your one-time donation!'']
   \<and> map msg_subject (take 1 (sends (snd (webhook ecma_stub sample_env failing_collaborators
        (sample_request ''pi-once'')))))
       = [''Thank you for your donation!'']
   \<and> sends (snd (webhook ecma_stub sample_env failing_collaborators
        (sample_request ''pi-odd-name''))) = []
   \<and> fst (webhook ecma_stub sample_env failing_collaborators (sample_request ''pi-odd-name''))
       = \<lparr>status = 500, body = No_body\<rparr>
   \<and> map msg_subject (take 1 (sends (snd (webhook ecma_stub sample_env failing_collaborators
        (sample_request ''invoice-plain'')))))
       = [''Thank you for your monthly donation!'']"
proof -
  note T = donor_subject_by_path [OF sample_verified sample_key, where E = ecma_stub]
  have a: "map msg_subject (take 1 (sends (snd (webhook ecma_stub sample_env failing_collaborators
        (sample_request ''checkout-monthly'')))))
       = [''Thank you for your monthly donation!'']"
    using T [of "''checkout-monthly''"]
    by (simp add: sample_event_def obj_get_def js_or_def js_get_def is_str_def)
  have b: "map msg_subject (take 1 (sends (snd (webhook ecma_stub sample_env failing_collaborators
        (sample_request ''checkout-once'')))))
       = [''Thank you for your one-time donation!'']"
    using T [of "''checkout-once''"]
    by (simp add: sample_event_def obj_get_def js_or_def js_get_def is_str_def)
  have c: "map msg_subject (take 1 (sends (snd (webhook ecma_stub sample_env failing_collaborators
        (sample_request ''pi-once'')))))
       = [''Thank you for your donation!'']"
    using T [of "''pi-once''"]
    by (simp add: sample_event_def obj_get_def js_or_def js_get_def is_str_def)
  have d: "sends (snd (webhook ecma_stub sample_env failing_collaborators
        (sample_request ''pi-odd-name''))) = []
      \<and> fst (webhook ecma_stub sample_env failing_collaborators (sample_request ''pi-odd-name''))
       = \<lparr>status = 500, body = No_body\<rparr>"
    using T [of "''pi-odd-name''"]
    by (simp add: sample_event_def obj_get_def js_or_def js_get_def is_str_def odd_object_def)
  have e: "map msg_subject (take 1 (sends (snd (webhook ecma_stub sample_env failing_collaborators
        (sample_request ''invoice-plain'')))))
       = [''Thank you for your monthly donation!'']"
    using T [of "''invoice-plain''"]
    by (simp add: sample_event_def obj_get_def js_or_def js_get_def is_str_def
        expand_invoice_def Let_def)
  from a b c d e sample_key sample_verified [of "''checkout-monthly''" sample_env]
    sample_verified [of "''checkout-once''" sample_env]
    sample_verified [of "''pi-once''" sample_env]
    sample_verified [of "''pi-odd-name''" sample_env]
    sample_verified [of "''invoice-plain''" sample_env]
  show ?thesis by blast
qed


section \<open>Session and intent gateway: the claims\<close>

lemma computeGross_Number:
  "ToNumber E v = Inr x \<Longrightarrow> computeGrossCents E (JNum x) c = computeGrossCents E v c"
  by (simp add: computeGrossCents_def)

lemma js_gt_truthy:
  "ToNumber E (js_or v (JNum (Fin 0))) = Inr base \<Longrightarrow> js_gt base (Fin 0) \<Longrightarrow>
     js_or v (JNum (Fin 0)) = v"
  by (auto simp: js_or_def)

lemma computeGrossCents_Inl: "computeGrossCents E v c = Inl e \<Longrightarrow> e = TypeError"
  by (auto simp: computeGrossCents_def split: if_splits sum.splits dest: ToNumber_Inl)

lemma newsletter_Inl: "newsletter E md = Inl e \<Longrightarrow> e = TypeError"
  by (auto simp: newsletter_def split: sum.splits dest: ToString_Inl)

lemma newsletter_isl: "isl (newsletter E md) \<longleftrightarrow> \<not> showable (js_get md ''newsletter_opt_in'')"
  using ToString_isl [of E "js_get md ''newsletter_opt_in''"]
  by (cases "ToString E (js_get md ''newsletter_opt_in'')") (simp_all add: newsletter_def)

lemma js_get_or_throw_Inl: "js_get_or_throw v k = Inl e \<Longrightarrow> e = TypeError"
  by (auto simp: js_get_or_throw_def split: jsval.splits)

lemma payment_intent_params_Inl: "payment_intent_params E b = Inl e \<Longrightarrow> e = TypeError"
  by (auto simp: payment_intent_params_def Let_def split: sum.splits if_splits
      dest: ToNumber_Inl computeGrossCents_Inl newsletter_Inl js_get_or_throw_Inl)

lemma subscription_params_Inl: "subscription_params E b = Inl e \<Longrightarrow> e = TypeError"
  by (auto simp: subscription_params_def Let_def split: sum.splits
      dest!: concatE_Inl dest: ToNumber_Inl ToString_Inl ToString_Inl [OF sym] newsletter_Inl
        js_get_or_throw_Inl)

lemma payment_intent_params_newsletter:
  "payment_intent_params E b = Inr p \<Longrightarrow>
     showable (js_get (dflt (obj_get b ''metadata'') (JObj Map.empty)) ''newsletter_opt_in'')"
  using newsletter_isl [of E "dflt (obj_get b ''metadata'') (JObj Map.empty)"]
  by (auto simp: payment_intent_params_def Let_def split: sum.splits)

lemma subscription_params_newsletter:
  "subscription_params E b = Inr q \<Longrightarrow>
     showable (js_get (dflt (obj_get b ''metadata'') (JObj Map.empty)) ''newsletter_opt_in'')"
  using newsletter_isl [of E "dflt (obj_get b ''metadata'') (JObj Map.empty)"]
  by (auto simp: subscription_params_def Let_def split: sum.splits)

text \<open>
  C8, as the specification states it: whenever \<^verbatim>\<open>metadata.base_amount_cents\<close> is
  present, the charged total is \<^verbatim>\<open>computeGrossCents(base_amount_cents, coverFees)\<close>
  and \<^verbatim>\<open>amountCents\<close> is ignored. With \<^verbatim>\<open>base_amount_cents\<close> present and 0 the
  charged total is the client's \<^verbatim>\<open>amountCents\<close>, 500, not the calculator's 0.
\<close>

theorem zero_base_uses_client_amount:
  "obj_get (own_props ecma_stub (obj_get zero_base_body ''metadata'')) ''base_amount_cents''
     = JNum (Fin 0)
   \<and> map_sum id pi_amount (payment_intent_params ecma_stub zero_base_body) = Inr (Fin 500)
   \<and> computeGrossCents ecma_stub (JNum (Fin 0)) (dflt (obj_get zero_base_body ''coverFees'') (JBool False))
       = Inr (Fin 0)"
  by (simp add: payment_intent_params_def zero_base_body_def obj_get_def dflt_def Let_def
      js_get_or_throw_def js_get_def js_or_def computeGrossCents_def own_props_def
      newsletter_def)

text \<open>
  C8, amended: when \<^verbatim>\<open>Number(metadata.base_amount_cents || 0)\<close> is greater than 0, the
  charged total is \<^verbatim>\<open>computeGrossCents(base_amount_cents, coverFees)\<close> and does not
  depend on \<^verbatim>\<open>amountCents\<close>; otherwise, and in particular when
  \<^verbatim>\<open>base_amount_cents\<close> is absent, it is \<^verbatim>\<open>Number(amountCents)\<close>.
\<close>

theorem charged_total:
  "payment_intent_params E b = Inr p \<Longrightarrow>
     (let metadata = dflt (obj_get b ''metadata'') (JObj Map.empty);
          coverFees = dflt (obj_get b ''coverFees'') (JBool False);
          base_amount_cents = js_get metadata ''base_amount_cents''
      in (case ToNumber E (js_or base_amount_cents (JNum (Fin 0))) of
            Inl e \<Rightarrow> False
          | Inr base \<Rightarrow>
              (js_gt base (Fin 0) \<longrightarrow>
                 computeGrossCents E base_amount_cents coverFees = Inr (pi_amount p)
                 \<and> (\<forall>v. map_sum id pi_amount
                            (payment_intent_params E (b(''amountCents'' \<mapsto> v)))
                         = Inr (pi_amount p)))
              \<and> (\<not> js_gt base (Fin 0) \<longrightarrow>
                 ToNumber E (obj_get b ''amountCents'') = Inr (pi_amount p)))
         \<and> (base_amount_cents = JUndefined \<longrightarrow>
            ToNumber E (obj_get b ''amountCents'') = Inr (pi_amount p)))"
proof -
  assume a: "payment_intent_params E b = Inr p"
  define metadata where "metadata = dflt (obj_get b ''metadata'') (JObj Map.empty)"
  define bac where "bac = js_get metadata ''base_amount_cents''"
  define cf where "cf = dflt (obj_get b ''coverFees'') (JBool False)"
  have g: "js_get_or_throw metadata ''base_amount_cents'' = Inr bac"
    using a unfolding payment_intent_params_def Let_def metadata_def [symmetric] bac_def
    by (auto simp: js_get_or_throw_def split: jsval.splits sum.splits)
  from a obtain base where base: "ToNumber E (js_or bac (JNum (Fin 0))) = Inr base"
    unfolding payment_intent_params_def Let_def metadata_def [symmetric] g
    by (auto split: sum.splits)
  from a obtain s where s: "newsletter E metadata = Inr s"
    unfolding payment_intent_params_def Let_def metadata_def [symmetric] g
    by (auto split: sum.splits)
  have amt: "(if js_gt base (Fin 0) then computeGrossCents E (JNum base) cf
              else ToNumber E (obj_get b ''amountCents'')) = Inr (pi_amount p)"
    using a unfolding payment_intent_params_def Let_def metadata_def [symmetric] g
      cf_def [symmetric]
    by (auto simp: base s split: sum.splits)
  have other: "map_sum id pi_amount (payment_intent_params E (b(''amountCents'' \<mapsto> v)))
      = Inr (pi_amount p)" if "js_gt base (Fin 0)" for v
  proof -
    have m: "dflt (obj_get (b(''amountCents'' \<mapsto> v)) ''metadata'') (JObj Map.empty) = metadata"
      by (simp add: metadata_def obj_get_def)
    have c: "dflt (obj_get (b(''amountCents'' \<mapsto> v)) ''coverFees'') (JBool False) = cf"
      by (simp add: cf_def obj_get_def)
    from amt that have "computeGrossCents E (JNum base) cf = Inr (pi_amount p)" by simp
    then show ?thesis
      unfolding payment_intent_params_def Let_def m c g
      by (simp add: base that s)
  qed
  have gross: "computeGrossCents E bac cf = Inr (pi_amount p)" if "js_gt base (Fin 0)"
  proof -
    from js_gt_truthy [OF base that] base have "ToNumber E bac = Inr base" by simp
    from computeGross_Number [OF this, of cf] amt that show ?thesis by simp
  qed
  have u: "bac = JUndefined \<Longrightarrow> \<not> js_gt base (Fin 0)"
    using base by (auto simp: js_or_def)
  show ?thesis
    unfolding Let_def metadata_def [symmetric] bac_def [symmetric] cf_def [symmetric]
    using amt other gross u by (auto simp: base)
qed

theorem charged_total_witness:
  "payment_intent_params ecma_stub base_body
     = Inr (projr (payment_intent_params ecma_stub base_body))
   \<and> ToNumber ecma_stub (js_or (JNum (Fin 1000)) (JNum (Fin 0))) = Inr (Fin 1000)
   \<and> js_gt (Fin 1000) (Fin 0)
   \<and> computeGrossCents ecma_stub (JNum (Fin 1000)) (JBool False)
       = Inr (pi_amount (projr (payment_intent_params ecma_stub base_body)))
   \<and> map_sum id pi_amount (payment_intent_params ecma_stub (base_body(''amountCents'' \<mapsto> JNum (Fin 7))))
       = Inr (pi_amount (projr (payment_intent_params ecma_stub base_body)))
   \<and> payment_intent_params ecma_stub plain_body
     = Inr (projr (payment_intent_params ecma_stub plain_body))
   \<and> pi_amount (projr (payment_intent_params ecma_stub plain_body)) = Fin 500"
proof -
  have a: "payment_intent_params ecma_stub base_body
     = Inr (projr (payment_intent_params ecma_stub base_body))"
    by (simp add: payment_intent_params_def base_body_def obj_get_def dflt_def Let_def
        js_get_or_throw_def js_get_def js_or_def computeGrossCents_def newsletter_def)
  have b: "payment_intent_params ecma_stub plain_body
     = Inr (projr (payment_intent_params ecma_stub plain_body))"
    by (simp add: payment_intent_params_def plain_body_def obj_get_def dflt_def Let_def
        js_get_or_throw_def js_get_def js_or_def newsletter_def)
  have n: "ToNumber ecma_stub (js_or (JNum (Fin 1000)) (JNum (Fin 0))) = Inr (Fin 1000)"
    by (simp add: js_or_def)
  have g: "js_gt (Fin 1000) (Fin 0)"
    by simp
  have m: "dflt (obj_get base_body ''metadata'') (JObj Map.empty)
      = JObj [''base_amount_cents'' \<mapsto> JNum (Fin 1000), ''frequency'' \<mapsto> JStr ''monthly'']"
    by (simp add: base_body_def obj_get_def dflt_def)
  have m': "dflt (obj_get plain_body ''metadata'') (JObj Map.empty) = JObj Map.empty"
    by (simp add: plain_body_def obj_get_def dflt_def)
  have c: "dflt (obj_get base_body ''coverFees'') (JBool False) = JBool False"
    by (simp add: base_body_def obj_get_def dflt_def)
  have A: "computeGrossCents ecma_stub (JNum (Fin 1000)) (JBool False)
       = Inr (pi_amount (projr (payment_intent_params ecma_stub base_body)))
     \<and> map_sum id pi_amount (payment_intent_params ecma_stub (base_body(''amountCents'' \<mapsto> JNum (Fin 7))))
       = Inr (pi_amount (projr (payment_intent_params ecma_stub base_body)))"
    using charged_total [OF a]
    unfolding Let_def m c
    by (simp add: js_get_def obj_get_def js_or_def)
  have B: "pi_amount (projr (payment_intent_params ecma_stub plain_body)) = Fin 500"
    using charged_total [OF b]
    unfolding Let_def m'
    by (simp add: js_get_def obj_get_def plain_body_def js_or_def)
  from a b n g A B show ?thesis by blast
qed


lemma newsletter_Inr:
  "newsletter E md = Inr s \<Longrightarrow>
     s = (if ToString E (js_get md ''newsletter_opt_in'') = Inr ''true''
          then JStr ''Yes'' else JStr ''No'')"
  by (auto simp: newsletter_def split: sum.splits)

lemma payment_intent_params_metadata:
  assumes "payment_intent_params E b = Inr p"
  shows "pi_metadata p
     = [''donor_name'' \<mapsto> js_or (obj_get b ''donorName'') (JStr []),
        ''phone'' \<mapsto>
           js_or (js_get (dflt (obj_get b ''metadata'') (JObj Map.empty)) ''phone'') (JStr []),
        ''address'' \<mapsto>
           js_or (js_get (dflt (obj_get b ''metadata'') (JObj Map.empty)) ''address1'') (JStr []),
        ''city'' \<mapsto>
           js_or (js_get (dflt (obj_get b ''metadata'') (JObj Map.empty)) ''city'') (JStr []),
        ''state'' \<mapsto>
           js_or (js_get (dflt (obj_get b ''metadata'') (JObj Map.empty)) ''state'') (JStr []),
        ''zip'' \<mapsto>
           js_or (js_get (dflt (obj_get b ''metadata'') (JObj Map.empty)) ''zip'') (JStr []),
        ''dedication'' \<mapsto>
           js_or (js_get (dflt (obj_get b ''metadata'') (JObj Map.empty)) ''dedication_text'')
             (JStr []),
        ''notifyEmail'' \<mapsto>
           js_or (js_get (dflt (obj_get b ''metadata'') (JObj Map.empty)) ''notify_email'')
             (JStr []),
        ''subscribeToNewsletter'' \<mapsto>
           (if ToString E (js_get (dflt (obj_get b ''metadata'') (JObj Map.empty))
                            ''newsletter_opt_in'') = Inr ''true''
            then JStr ''Yes'' else JStr ''No''),
        ''frequency'' \<mapsto> JStr ''one_time'']
       ++ own_props E (dflt (obj_get b ''metadata'') (JObj Map.empty))"
proof -
  define metadata where "metadata = dflt (obj_get b ''metadata'') (JObj Map.empty)"
  from assms obtain s where s: "newsletter E metadata = Inr s"
    and p: "pi_metadata p
       = [''donor_name'' \<mapsto> js_or (obj_get b ''donorName'') (JStr []),
          ''phone'' \<mapsto> js_or (js_get metadata ''phone'') (JStr []),
          ''address'' \<mapsto> js_or (js_get metadata ''address1'') (JStr []),
          ''city'' \<mapsto> js_or (js_get metadata ''city'') (JStr []),
          ''state'' \<mapsto> js_or (js_get metadata ''state'') (JStr []),
          ''zip'' \<mapsto> js_or (js_get metadata ''zip'') (JStr []),
          ''dedication'' \<mapsto> js_or (js_get metadata ''dedication_text'') (JStr []),
          ''notifyEmail'' \<mapsto> js_or (js_get metadata ''notify_email'') (JStr []),
          ''subscribeToNewsletter'' \<mapsto> s,
          ''frequency'' \<mapsto> JStr ''one_time'']
         ++ own_props E metadata"
    unfolding payment_intent_params_def Let_def metadata_def [symmetric]
    by (auto split: sum.splits)
  show ?thesis
    unfolding metadata_def [symmetric] p newsletter_Inr [OF s] ..
qed

lemma subscription_params_metadata:
  assumes "subscription_params E b = Inr q"
    and "ToString E (js_or (js_get (dflt (obj_get b ''metadata'') (JObj Map.empty))
                       ''first_name'') (JStr [])) = Inr f"
    and "ToString E (js_or (js_get (dflt (obj_get b ''metadata'') (JObj Map.empty))
                       ''last_name'') (JStr [])) = Inr l"
  shows "sub_metadata q
     = [''frequency'' \<mapsto> JStr ''monthly'',
        ''donor_name'' \<mapsto> JStr (trim (f @ '' '' @ l)),
        ''phone'' \<mapsto>
           js_or (js_get (dflt (obj_get b ''metadata'') (JObj Map.empty)) ''phone'') (JStr []),
        ''address'' \<mapsto>
           js_or (js_get (dflt (obj_get b ''metadata'') (JObj Map.empty)) ''address1'') (JStr []),
        ''city'' \<mapsto>
           js_or (js_get (dflt (obj_get b ''metadata'') (JObj Map.empty)) ''city'') (JStr []),
        ''state'' \<mapsto>
           js_or (js_get (dflt (obj_get b ''metadata'') (JObj Map.empty)) ''state'') (JStr []),
        ''zip'' \<mapsto>
           js_or (js_get (dflt (obj_get b ''metadata'') (JObj Map.empty)) ''zip'') (JStr []),
        ''dedication'' \<mapsto>
           js_or (js_get (dflt (obj_get b ''metadata'') (JObj Map.empty)) ''dedication_text'')
             (JStr []),
        ''notifyEmail'' \<mapsto>
           js_or (js_get (dflt (obj_get b ''metadata'') (JObj Map.empty)) ''notify_email'')
             (JStr []),
        ''subscribeToNewsletter'' \<mapsto>
           (if ToString E (js_get (dflt (obj_get b ''metadata'') (JObj Map.empty))
                            ''newsletter_opt_in'') = Inr ''true''
            then JStr ''Yes'' else JStr ''No'')]
       ++ own_props E (dflt (obj_get b ''metadata'') (JObj Map.empty))"
proof -
  define metadata where "metadata = dflt (obj_get b ''metadata'') (JObj Map.empty)"
  note f = assms(2) [folded metadata_def] and l = assms(3) [folded metadata_def]
  have g: "js_get_or_throw metadata ''first_name'' = Inr (js_get metadata ''first_name'')"
    using assms(1) unfolding subscription_params_def Let_def metadata_def [symmetric]
    by (auto simp: js_get_or_throw_def split: jsval.splits sum.splits)
  from assms(1) obtain s where s: "newsletter E metadata = Inr s"
    and p: "sub_metadata q
       = [''frequency'' \<mapsto> JStr ''monthly'',
          ''donor_name'' \<mapsto> JStr (trim (f @ '' '' @ l)),
          ''phone'' \<mapsto> js_or (js_get metadata ''phone'') (JStr []),
          ''address'' \<mapsto> js_or (js_get metadata ''address1'') (JStr []),
          ''city'' \<mapsto> js_or (js_get metadata ''city'') (JStr []),
          ''state'' \<mapsto> js_or (js_get metadata ''state'') (JStr []),
          ''zip'' \<mapsto> js_or (js_get metadata ''zip'') (JStr []),
          ''dedication'' \<mapsto> js_or (js_get metadata ''dedication_text'') (JStr []),
          ''notifyEmail'' \<mapsto> js_or (js_get metadata ''notify_email'') (JStr []),
          ''subscribeToNewsletter'' \<mapsto> s]
         ++ own_props E metadata"
    unfolding subscription_params_def Let_def metadata_def [symmetric] g
    by (auto simp: concatE_def f l split: sum.splits)
  show ?thesis
    unfolding metadata_def [symmetric] p newsletter_Inr [OF s] ..
qed

lemma map_add_case: "(m ++ n) k = (case n k of Some v \<Rightarrow> Some v | None \<Rightarrow> m k)"
  by (simp add: map_add_def split: option.splits)

text \<open>
  C9. In both endpoints the metadata sent to the processor holds, for every key, the
  value of the client's \<^verbatim>\<open>metadata\<close> when the client's metadata has a property of that
  name, also where the server computed a value for the same key, and the server's value
  otherwise; it is part of the argument of the call the endpoint makes. An endpoint that
  cannot build the argument (here: because \<^verbatim>\<open>String(metadata.newsletter_opt_in)\<close>
  throws) answers 400 and does not call the processor to create anything.
\<close>

theorem client_metadata_overrides:
  "(payment_intent_params E b = Inr p \<longrightarrow>
      (own_props E (dflt (obj_get b ''metadata'') (JObj Map.empty)) k = Some v \<longrightarrow>
         pi_metadata p k = Some v)
      \<and> (own_props E (dflt (obj_get b ''metadata'') (JObj Map.empty)) k = None \<longrightarrow>
         pi_metadata p k
           = [''donor_name'' \<mapsto> js_or (obj_get b ''donorName'') (JStr []),
              ''phone'' \<mapsto>
                 js_or (js_get (dflt (obj_get b ''metadata'') (JObj Map.empty)) ''phone'')
                   (JStr []),
              ''address'' \<mapsto>
                 js_or (js_get (dflt (obj_get b ''metadata'') (JObj Map.empty)) ''address1'')
                   (JStr []),
              ''city'' \<mapsto>
                 js_or (js_get (dflt (obj_get b ''metadata'') (JObj Map.empty)) ''city'')
                   (JStr []),
              ''state'' \<mapsto>
                 js_or (js_get (dflt (obj_get b ''metadata'') (JObj Map.empty)) ''state'')
                   (JStr []),
              ''zip'' \<mapsto>
                 js_or (js_get (dflt (obj_get b ''metadata'') (JObj Map.empty)) ''zip'')
                   (JStr []),
              ''dedication'' \<mapsto>
                 js_or (js_get (dflt (obj_get b ''metadata'') (JObj Map.empty))
                          ''dedication_text'') (JStr []),
              ''notifyEmail'' \<mapsto>
                 js_or (js_get (dflt (obj_get b ''metadata'') (JObj Map.empty))
                          ''notify_email'') (JStr []),
              ''subscribeToNewsletter'' \<mapsto>
                 (if ToString E (js_get (dflt (obj_get b ''metadata'') (JObj Map.empty))
                                  ''newsletter_opt_in'') = Inr ''true''
                  then JStr ''Yes'' else JStr ''No''),
              ''frequency'' \<mapsto> JStr ''one_time''] k)
      \<and> Call_paymentIntents_create p \<in> set (snd (create_payment_intent E g b)))
   \<and> (\<not> showable (js_get (dflt (obj_get b ''metadata'') (JObj Map.empty))
                      ''newsletter_opt_in'') \<longrightarrow>
        create_payment_intent E g b
          = (\<lparr>status = 400, body = Error_body TypeError\<rparr>, [Log_gateway_error TypeError]))
   \<and> (subscription_params E b = Inr q \<longrightarrow>
      ToString E (js_or (js_get (dflt (obj_get b ''metadata'') (JObj Map.empty))
                           ''first_name'') (JStr [])) = Inr f \<longrightarrow>
      ToString E (js_or (js_get (dflt (obj_get b ''metadata'') (JObj Map.empty))
                           ''last_name'') (JStr [])) = Inr l \<longrightarrow>
      (own_props E (dflt (obj_get b ''metadata'') (JObj Map.empty)) k = Some v \<longrightarrow>
         sub_metadata q k = Some v)
      \<and> (own_props E (dflt (obj_get b ''metadata'') (JObj Map.empty)) k = None \<longrightarrow>
         sub_metadata q k
           = [''frequency'' \<mapsto> JStr ''monthly'',
              ''donor_name'' \<mapsto> JStr (trim (f @ '' '' @ l)),
              ''phone'' \<mapsto>
                 js_or (js_get (dflt (obj_get b ''metadata'') (JObj Map.empty)) ''phone'')
                   (JStr []),
              ''address'' \<mapsto>
                 js_or (js_get (dflt (obj_get b ''metadata'') (JObj Map.empty)) ''address1'')
                   (JStr []),
              ''city'' \<mapsto>
                 js_or (js_get (dflt (obj_get b ''metadata'') (JObj Map.empty)) ''city'')
                   (JStr []),
              ''state'' \<mapsto>
                 js_or (js_get (dflt (obj_get b ''metadata'') (JObj Map.empty)) ''state'')
                   (JStr []),
              ''zip'' \<mapsto>
                 js_or (js_get (dflt (obj_get b ''metadata'') (JObj Map.empty)) ''zip'')
                   (JStr []),
              ''dedication'' \<mapsto>
                 js_or (js_get (dflt (obj_get b ''metadata'') (JObj Map.empty))
                          ''dedication_text'') (JStr []),
              ''notifyEmail'' \<mapsto>
                 js_or (js_get (dflt (obj_get b ''metadata'') (JObj Map.empty))
                          ''notify_email'') (JStr []),
              ''subscribeToNewsletter'' \<mapsto>
                 (if ToString E (js_get (dflt (obj_get b ''metadata'') (JObj Map.empty))
                                  ''newsletter_opt_in'') = Inr ''true''
                  then JStr ''Yes'' else JStr ''No'')] k)
      \<and> (paymentMethods_attach g (obj_get b ''paymentMethodId'') (obj_get b ''customerId'') = Inr () \<longrightarrow>
         customers_update g (obj_get b ''customerId'') (obj_get b ''paymentMethodId'') = Inr () \<longrightarrow>
           Call_subscriptions_create q \<in> set (snd (create_subscription E g b))))
   \<and> (\<not> showable (js_get (dflt (obj_get b ''metadata'') (JObj Map.empty))
                      ''newsletter_opt_in'') \<longrightarrow>
        status (fst (create_subscription E g b)) = 400
        \<and> Call_subscriptions_create q \<notin> set (snd (create_subscription E g b)))"
proof -
  let ?md = "dflt (obj_get b ''metadata'') (JObj Map.empty)"
  have P: "(own_props E ?md k = Some v \<longrightarrow> pi_metadata p k = Some v)
      \<and> (own_props E ?md k = None \<longrightarrow>
         pi_metadata p k
           = [''donor_name'' \<mapsto> js_or (obj_get b ''donorName'') (JStr []),
              ''phone'' \<mapsto> js_or (js_get ?md ''phone'') (JStr []),
              ''address'' \<mapsto> js_or (js_get ?md ''address1'') (JStr []),
              ''city'' \<mapsto> js_or (js_get ?md ''city'') (JStr []),
              ''state'' \<mapsto> js_or (js_get ?md ''state'') (JStr []),
              ''zip'' \<mapsto> js_or (js_get ?md ''zip'') (JStr []),
              ''dedication'' \<mapsto> js_or (js_get ?md ''dedication_text'') (JStr []),
              ''notifyEmail'' \<mapsto> js_or (js_get ?md ''notify_email'') (JStr []),
              ''subscribeToNewsletter'' \<mapsto>
                 (if ToString E (js_get ?md ''newsletter_opt_in'') = Inr ''true''
                  then JStr ''Yes'' else JStr ''No''),
              ''frequency'' \<mapsto> JStr ''one_time''] k)
      \<and> Call_paymentIntents_create p \<in> set (snd (create_payment_intent E g b))"
    if a: "payment_intent_params E b = Inr p"
  proof -
    have "Call_paymentIntents_create p \<in> set (snd (create_payment_intent E g b))"
      using a by (simp add: create_payment_intent_def bad_request_def split: sum.splits)
    then show ?thesis
      unfolding payment_intent_params_metadata [OF a]
      by (intro conjI impI) (simp_all only: map_add_case option.case)
  qed
  have Pn: "create_payment_intent E g b
          = (\<lparr>status = 400, body = Error_body TypeError\<rparr>, [Log_gateway_error TypeError])"
    if n: "\<not> showable (js_get ?md ''newsletter_opt_in'')"
  proof (cases "payment_intent_params E b")
    case (Inl e)
    with payment_intent_params_Inl [OF Inl] show ?thesis
      by (simp add: create_payment_intent_def bad_request_def)
  next
    case (Inr p')
    from payment_intent_params_newsletter [OF Inr] n show ?thesis by simp
  qed
  have Q: "(own_props E ?md k = Some v \<longrightarrow> sub_metadata q k = Some v)
      \<and> (own_props E ?md k = None \<longrightarrow>
         sub_metadata q k
           = [''frequency'' \<mapsto> JStr ''monthly'',
              ''donor_name'' \<mapsto> JStr (trim (f @ '' '' @ l)),
              ''phone'' \<mapsto> js_or (js_get ?md ''phone'') (JStr []),
              ''address'' \<mapsto> js_or (js_get ?md ''address1'') (JStr []),
              ''city'' \<mapsto> js_or (js_get ?md ''city'') (JStr []),
              ''state'' \<mapsto> js_or (js_get ?md ''state'') (JStr []),
              ''zip'' \<mapsto> js_or (js_get ?md ''zip'') (JStr []),
              ''dedication'' \<mapsto> js_or (js_get ?md ''dedication_text'') (JStr []),
              ''notifyEmail'' \<mapsto> js_or (js_get ?md ''notify_email'') (JStr []),
              ''subscribeToNewsletter'' \<mapsto>
                 (if ToString E (js_get ?md ''newsletter_opt_in'') = Inr ''true''
                  then JStr ''Yes'' else JStr ''No'')] k)
      \<and> (paymentMethods_attach g (obj_get b ''paymentMethodId'') (obj_get b ''customerId'') = Inr () \<longrightarrow>
         customers_update g (obj_get b ''customerId'') (obj_get b ''paymentMethodId'') = Inr () \<longrightarrow>
           Call_subscriptions_create q \<in> set (snd (create_subscription E g b)))"
    if a: "subscription_params E b = Inr q"
      and f: "ToString E (js_or (js_get ?md ''first_name'') (JStr [])) = Inr f"
      and l: "ToString E (js_or (js_get ?md ''last_name'') (JStr [])) = Inr l"
  proof -
    have "paymentMethods_attach g (obj_get b ''paymentMethodId'') (obj_get b ''customerId'') = Inr () \<longrightarrow>
         customers_update g (obj_get b ''customerId'') (obj_get b ''paymentMethodId'') = Inr () \<longrightarrow>
           Call_subscriptions_create q \<in> set (snd (create_subscription E g b))"
      using a by (simp add: create_subscription_def Let_def bad_request_def split: sum.splits)
    then show ?thesis
      unfolding subscription_params_metadata [OF a f l]
      by (intro conjI impI) (simp_all only: map_add_case option.case)
  qed
  have Qn: "status (fst (create_subscription E g b)) = 400
        \<and> Call_subscriptions_create q \<notin> set (snd (create_subscription E g b))"
    if n: "\<not> showable (js_get ?md ''newsletter_opt_in'')"
  proof (cases "subscription_params E b")
    case (Inl e)
    then show ?thesis
      by (simp add: create_subscription_def Let_def bad_request_def split: sum.splits)
  next
    case (Inr q')
    from subscription_params_newsletter [OF Inr] n show ?thesis by simp
  qed
  from P Pn Q Qn show ?thesis by blast
qed


theorem client_metadata_overrides_witness:
  "payment_intent_params ecma_stub base_body
     = Inr (projr (payment_intent_params ecma_stub base_body))
   \<and> own_props ecma_stub (dflt (obj_get base_body ''metadata'') (JObj Map.empty)) ''frequency''
       = Some (JStr ''monthly'')
   \<and> pi_metadata (projr (payment_intent_params ecma_stub base_body)) ''frequency''
       = Some (JStr ''monthly'')
   \<and> own_props ecma_stub (dflt (obj_get base_body ''metadata'') (JObj Map.empty)) ''phone''
       = None
   \<and> pi_metadata (projr (payment_intent_params ecma_stub base_body)) ''phone''
       = Some (JStr [])
   \<and> Call_paymentIntents_create (projr (payment_intent_params ecma_stub base_body))
       \<in> set (snd (create_payment_intent ecma_stub accepting_processor base_body))
   \<and> \<not> showable (js_get (dflt (obj_get odd_optin_body ''metadata'') (JObj Map.empty))
                    ''newsletter_opt_in'')
   \<and> create_payment_intent ecma_stub accepting_processor odd_optin_body
       = (\<lparr>status = 400, body = Error_body TypeError\<rparr>, [Log_gateway_error TypeError])
   \<and> subscription_params ecma_stub sub_body
     = Inr (projr (subscription_params ecma_stub sub_body))
   \<and> ToString ecma_stub (js_or (js_get (dflt (obj_get sub_body ''metadata'') (JObj Map.empty))
                                  ''first_name'') (JStr [])) = Inr ''Ada''
   \<and> ToString ecma_stub (js_or (js_get (dflt (obj_get sub_body ''metadata'') (JObj Map.empty))
                                  ''last_name'') (JStr [])) = Inr []
   \<and> own_props ecma_stub (dflt (obj_get sub_body ''metadata'') (JObj Map.empty)) ''donor_name''
       = Some (JStr ''Anonymous'')
   \<and> sub_metadata (projr (subscription_params ecma_stub sub_body)) ''donor_name''
       = Some (JStr ''Anonymous'')
   \<and> own_props ecma_stub (dflt (obj_get sub_body ''metadata'') (JObj Map.empty)) ''frequency''
       = None
   \<and> sub_metadata (projr (subscription_params ecma_stub sub_body)) ''frequency''
       = Some (JStr ''monthly'')
   \<and> paymentMethods_attach accepting_processor (obj_get sub_body ''paymentMethodId'')
        (obj_get sub_body ''customerId'') = Inr ()
   \<and> customers_update accepting_processor (obj_get sub_body ''customerId'')
        (obj_get sub_body ''paymentMethodId'') = Inr ()
   \<and> Call_subscriptions_create (projr (subscription_params ecma_stub sub_body))
       \<in> set (snd (create_subscription ecma_stub accepting_processor sub_body))
   \<and> status (fst (create_subscription ecma_stub accepting_processor odd_optin_body)) = 400"
proof -
  have a: "payment_intent_params ecma_stub base_body
     = Inr (projr (payment_intent_params ecma_stub base_body))"
    by (simp add: payment_intent_params_def base_body_def obj_get_def dflt_def Let_def
        js_get_or_throw_def js_get_def js_or_def computeGrossCents_def newsletter_def)
  have o: "own_props ecma_stub (dflt (obj_get base_body ''metadata'') (JObj Map.empty)) ''frequency''
       = Some (JStr ''monthly'')"
    by (simp add: base_body_def obj_get_def dflt_def own_props_def)
  have o2: "own_props ecma_stub (dflt (obj_get base_body ''metadata'') (JObj Map.empty)) ''phone''
       = None"
    by (simp add: base_body_def obj_get_def dflt_def own_props_def)
  have n: "\<not> showable (js_get (dflt (obj_get odd_optin_body ''metadata'') (JObj Map.empty))
                    ''newsletter_opt_in'')"
    by (simp add: odd_optin_body_def obj_get_def dflt_def js_get_def odd_object_def)
  have a': "subscription_params ecma_stub sub_body
     = Inr (projr (subscription_params ecma_stub sub_body))"
    by (simp add: subscription_params_def sub_body_def obj_get_def dflt_def Let_def
        js_get_or_throw_def js_get_def js_or_def concatE_def newsletter_def)
  have f: "ToString ecma_stub (js_or (js_get (dflt (obj_get sub_body ''metadata'')
      (JObj Map.empty)) ''first_name'') (JStr [])) = Inr ''Ada''"
    by (simp add: sub_body_def obj_get_def dflt_def js_get_def js_or_def)
  have l: "ToString ecma_stub (js_or (js_get (dflt (obj_get sub_body ''metadata'')
      (JObj Map.empty)) ''last_name'') (JStr [])) = Inr []"
    by (simp add: sub_body_def obj_get_def dflt_def js_get_def js_or_def)
  have o': "own_props ecma_stub (dflt (obj_get sub_body ''metadata'') (JObj Map.empty)) ''donor_name''
       = Some (JStr ''Anonymous'')"
    by (simp add: sub_body_def obj_get_def dflt_def own_props_def)
  have o2': "own_props ecma_stub (dflt (obj_get sub_body ''metadata'') (JObj Map.empty)) ''frequency''
       = None"
    by (simp add: sub_body_def obj_get_def dflt_def own_props_def)
  have x: "paymentMethods_attach accepting_processor (obj_get sub_body ''paymentMethodId'')
        (obj_get sub_body ''customerId'') = Inr ()"
    and y: "customers_update accepting_processor (obj_get sub_body ''customerId'')
        (obj_get sub_body ''paymentMethodId'') = Inr ()"
    by (simp_all add: accepting_processor_def)
  from client_metadata_overrides [where E = ecma_stub and b = base_body
      and p = "projr (payment_intent_params ecma_stub base_body)"
      and k = "''frequency''" and v = "JStr ''monthly''" and g = accepting_processor] a o
  have P: "pi_metadata (projr (payment_intent_params ecma_stub base_body)) ''frequency''
       = Some (JStr ''monthly'')
     \<and> Call_paymentIntents_create (projr (payment_intent_params ecma_stub base_body))
       \<in> set (snd (create_payment_intent ecma_stub accepting_processor base_body))"
    by blast
  from client_metadata_overrides [where E = ecma_stub and b = base_body
      and p = "projr (payment_intent_params ecma_stub base_body)"
      and k = "''phone''" and g = accepting_processor] a o2
  have "pi_metadata (projr (payment_intent_params ecma_stub base_body)) ''phone''
       = [''donor_name'' \<mapsto> js_or (obj_get base_body ''donorName'') (JStr []),
          ''phone'' \<mapsto>
             js_or (js_get (dflt (obj_get base_body ''metadata'') (JObj Map.empty)) ''phone'')
               (JStr [])] ''phone''"
    by simp
  then have P2: "pi_metadata (projr (payment_intent_params ecma_stub base_body)) ''phone''
       = Some (JStr [])"
    by (simp add: base_body_def obj_get_def dflt_def js_get_def js_or_def)
  from client_metadata_overrides [where E = ecma_stub and b = odd_optin_body
      and g = accepting_processor] n
  have N: "create_payment_intent ecma_stub accepting_processor odd_optin_body
       = (\<lparr>status = 400, body = Error_body TypeError\<rparr>, [Log_gateway_error TypeError])"
    and N': "status (fst (create_subscription ecma_stub accepting_processor odd_optin_body)) = 400"
    by blast+
  from client_metadata_overrides [where E = ecma_stub and b = sub_body
      and q = "projr (subscription_params ecma_stub sub_body)"
      and k = "''donor_name''" and v = "JStr ''Anonymous''" and g = accepting_processor
      and f = "''Ada''" and l = "[]"] a' f l o' x y
  have Q: "sub_metadata (projr (subscription_params ecma_stub sub_body)) ''donor_name''
       = Some (JStr ''Anonymous'')
     \<and> Call_subscriptions_create (projr (subscription_params ecma_stub sub_body))
       \<in> set (snd (create_subscription ecma_stub accepting_processor sub_body))"
    by blast
  from client_metadata_overrides [where E = ecma_stub and b = sub_body
      and q = "projr (subscription_params ecma_stub sub_body)"
      and k = "''frequency''" and g = accepting_processor
      and f = "''Ada''" and l = "[]"] a' f l o2'
  have "sub_metadata (projr (subscription_params ecma_stub sub_body)) ''frequency''
       = [''frequency'' \<mapsto> JStr ''monthly''] ''frequency''"
    by simp
  then have Q2: "sub_metadata (projr (subscription_params ecma_stub sub_body)) ''frequency''
       = Some (JStr ''monthly'')"
    by simp
  from a o o2 n a' f l o' o2' x y P P2 N N' Q Q2 show ?thesis by blast
qed


end
